theory Spec2Isabelle
  imports Complex_Main
begin

section \<open>Cards (core/card.py)\<close>

text \<open>
  The rarity enumeration of \<^verbatim>\<open>core/card.py\<close>. \<^verbatim>\<open>from_cost\<close> looks the cost up in a
  dictionary literal and falls back to \<^verbatim>\<open>UNKNOWN\<close>; the dictionary is kept as a map.
  Python integers are unbounded, so a cost is an \<^typ>\<open>int\<close>.
\<close>

datatype CardRarity =
  ONE_COST | TWO_COST | THREE_COST | FOUR_COST | FIVE_COST | SPATULA | UNKNOWN

definition cost_map :: "int \<rightharpoonup> CardRarity" where
  "cost_map = [1 \<mapsto> ONE_COST, 2 \<mapsto> TWO_COST, 3 \<mapsto> THREE_COST,
               4 \<mapsto> FOUR_COST, 5 \<mapsto> FIVE_COST]"

definition from_cost :: "int \<Rightarrow> CardRarity" where
  "from_cost cost = (case cost_map cost of Some r \<Rightarrow> r | None \<Rightarrow> UNKNOWN)"

text \<open>
  \<^verbatim>\<open>CardClass(name)\<close> stores \<^verbatim>\<open>name.strip()\<close>. Strings are byte lists here, so the
  model strips the one-byte whitespace characters of Python's \<^verbatim>\<open>str.strip\<close>
  (codes 9 to 13, 28 to 32); no operation below reads the class list.
\<close>

definition py_isspace :: "char \<Rightarrow> bool" where
  "py_isspace c = (let n = (of_char c :: nat) in (9 \<le> n \<and> n \<le> 13) \<or> (28 \<le> n \<and> n \<le> 32))"

definition py_strip :: "string \<Rightarrow> string" where
  "py_strip s = rev (dropWhile py_isspace (rev (dropWhile py_isspace s)))"

datatype CardClass = CardClass (class_name: string)

definition CardClass_init :: "string \<Rightarrow> CardClass" where
  "CardClass_init n = CardClass (py_strip n)"

text \<open>
  A \<^verbatim>\<open>Card\<close> object with the attributes its constructor sets. The confidence is a
  Python float, read here as a real number (it is only stored and compared).
  A position is a pair; \<^verbatim>\<open>shop_index\<close> is \<^verbatim>\<open>None\<close> until the recogniser sets it.
\<close>

record Card =
  name :: string
  cost :: int
  rarity :: CardRarity
  classes :: "CardClass list"
  template_path :: string
  confidence :: real
  position :: "int \<times> int"
  is_selected :: bool
  shop_index :: "nat option"

text \<open>
  \<^verbatim>\<open>Card.__init__(name, cost, classes, template_path, confidence, position)\<close>.
  \<^verbatim>\<open>classes\<close> and \<^verbatim>\<open>position\<close> may be \<^verbatim>\<open>None\<close>; \<^verbatim>\<open>position or (0, 0)\<close> keeps every
  pair that is given, because a two-element tuple is truthy.
\<close>

definition Card_init ::
  "string \<Rightarrow> int \<Rightarrow> string list option \<Rightarrow> string \<Rightarrow> real \<Rightarrow> (int \<times> int) option \<Rightarrow> Card" where
  "Card_init n c cls tp conf pos =
     \<lparr> name = n, cost = c, rarity = from_cost c,
       classes = (case cls of None \<Rightarrow> [] | Some cs \<Rightarrow> map CardClass_init cs),
       template_path = tp, confidence = conf,
       position = (case pos of None \<Rightarrow> (0, 0) | Some p \<Rightarrow> p),
       is_selected = False, shop_index = None \<rparr>"

definition set_position :: "Card \<Rightarrow> int \<Rightarrow> int \<Rightarrow> Card" where
  "set_position c x y = c\<lparr>position := (x, y)\<rparr>"

definition select :: "Card \<Rightarrow> Card" where
  "select c = c\<lparr>is_selected := True\<rparr>"

definition deselect :: "Card \<Rightarrow> Card" where
  "deselect c = c\<lparr>is_selected := False\<rparr>"

text \<open>
  \<^verbatim>\<open>Card.__eq__(self, other)\<close> tests \<^verbatim>\<open>isinstance(other, Card)\<close> first, so the right
  operand is any Python object: a card, or something else. \<^verbatim>\<open>Card.__hash__\<close> is
  \<^verbatim>\<open>hash(self.name)\<close>; Python's string hash is a parameter \<open>h\<close> of the model (it is
  seeded per process).
\<close>

datatype pyobj = CardObj Card | StrObj string | IntObj int | NoneObj

fun Card_eq :: "Card \<Rightarrow> pyobj \<Rightarrow> bool" where
  "Card_eq self (CardObj other) = (name self = name other)"
| "Card_eq self _ = False"

definition Card_hash :: "(string \<Rightarrow> int) \<Rightarrow> Card \<Rightarrow> int" where
  "Card_hash h self = h (name self)"


section \<open>Game state (core/game\_state.py)\<close>

datatype GamePhase = PH_UNKNOWN | LOBBY | SHOPPING | PICKING | BATTLING | GAME_OVER | PH_PAUSED

text \<open>
  One entry of \<^verbatim>\<open>shop_slots\<close>, the dictionary
  \<^verbatim>\<open>{'index': i, 'position': (left, top), 'has_card': True}\<close>.
\<close>

record ShopSlot =
  slot_index :: nat
  slot_position :: "int \<times> int"
  has_card :: bool

record GameState =
  phase :: GamePhase
  available_cards :: "Card list"
  gold :: int
  level :: int
  shop_slots :: "ShopSlot list"
  is_active :: bool
  last_update_time :: "real option"

definition GameState_init :: GameState where
  "GameState_init =
     \<lparr> phase = PH_UNKNOWN, available_cards = [], gold = 0, level = 1,
       shop_slots = [], is_active = False, last_update_time = None \<rparr>"

text \<open>
  \<^verbatim>\<open>update_phase\<close> reads the clock only when the phase changes; the reading is the
  argument \<open>now\<close>.
\<close>

definition update_phase :: "real \<Rightarrow> GamePhase \<Rightarrow> GameState \<Rightarrow> GameState" where
  "update_phase now new_phase gs =
     (if phase gs \<noteq> new_phase
      then gs\<lparr>phase := new_phase, last_update_time := Some now\<rparr>
      else gs)"

definition set_shop_phase :: "real \<Rightarrow> GameState \<Rightarrow> GameState" where
  "set_shop_phase now gs = (update_phase now SHOPPING gs)\<lparr>is_active := True\<rparr>"

definition set_lobby_phase :: "real \<Rightarrow> GameState \<Rightarrow> GameState" where
  "set_lobby_phase now gs = (update_phase now LOBBY gs)\<lparr>is_active := False\<rparr>"

definition set_battle_phase :: "real \<Rightarrow> GameState \<Rightarrow> GameState" where
  "set_battle_phase now gs = (update_phase now BATTLING gs)\<lparr>is_active := False\<rparr>"


section \<open>Selection strategies (core/strategy.py)\<close>

subsection \<open>PriorityStrategy\<close>

record PriorityStrategy =
  priority_list :: "string list"
  max_cost :: int
  prefer_higher_cost :: bool

text \<open>
  The constructor: \<^verbatim>\<open>priority_list or []\<close>, \<^verbatim>\<open>max_cost = 5\<close> and
  \<^verbatim>\<open>prefer_higher_cost = True\<close> are the defaults of the arguments left out.
\<close>

definition PriorityStrategy_init ::
  "string list option \<Rightarrow> int option \<Rightarrow> bool option \<Rightarrow> PriorityStrategy" where
  "PriorityStrategy_init pl mc phc =
     \<lparr> priority_list = (case pl of None \<Rightarrow> [] | Some l \<Rightarrow> l),
       max_cost = (case mc of None \<Rightarrow> 5 | Some m \<Rightarrow> m),
       prefer_higher_cost = (case phc of None \<Rightarrow> True | Some b \<Rightarrow> b) \<rparr>"

text \<open>
  \<^verbatim>\<open>list.index(x)\<close>: the position of the first occurrence, \<^verbatim>\<open>ValueError\<close> (here
  \<open>None\<close>) when there is none.
\<close>

fun list_index :: "'a list \<Rightarrow> 'a \<Rightarrow> nat option" where
  "list_index [] x = None"
| "list_index (y # ys) x =
     (if y = x then Some 0
      else (case list_index ys x of None \<Rightarrow> None | Some i \<Rightarrow> Some (Suc i)))"

definition get_priority_index :: "PriorityStrategy \<Rightarrow> string \<Rightarrow> int" where
  "get_priority_index ps card_name =
     (case list_index (priority_list ps) card_name of
        Some i \<Rightarrow> int i
      | None \<Rightarrow> - 1)"

text \<open>
  The scoring loop of \<^verbatim>\<open>select_card\<close>: it walks the filtered cards in order and
  appends \<^verbatim>\<open>(card, total_score)\<close> for every card whose priority index is not negative.
\<close>

fun score_cards :: "PriorityStrategy \<Rightarrow> Card list \<Rightarrow> (Card \<times> int) list" where
  "score_cards ps [] = []"
| "score_cards ps (c # rest) =
     (let priority_index = get_priority_index ps (name c) in
      if priority_index \<ge> 0 then
        (let base_score = int (length (priority_list ps)) - priority_index;
             cost_bonus = (if prefer_higher_cost ps then cost c * 10 else 0);
             total_score = base_score + cost_bonus
         in (c, total_score) # score_cards ps rest)
      else score_cards ps rest)"

text \<open>
  \<^verbatim>\<open>scored.sort(key=lambda x: x[1], reverse=True)\<close>: Python's sort is stable also
  with \<^verbatim>\<open>reverse=True\<close>, so entries of equal score keep their order. The model is a
  stable insertion sort into descending order of the second component.
\<close>

fun insert_desc :: "('a \<times> int) \<Rightarrow> ('a \<times> int) list \<Rightarrow> ('a \<times> int) list" where
  "insert_desc x [] = [x]"
| "insert_desc x (y # ys) = (if snd y \<le> snd x then x # y # ys else y # insert_desc x ys)"

fun sort_reverse :: "('a \<times> int) list \<Rightarrow> ('a \<times> int) list" where
  "sort_reverse [] = []"
| "sort_reverse (x # xs) = insert_desc x (sort_reverse xs)"

definition select_card :: "PriorityStrategy \<Rightarrow> Card list \<Rightarrow> GameState \<Rightarrow> Card option" where
  "select_card ps cards game_state =
     (if cards = [] then None
      else
        (let filtered_cards = filter (\<lambda>c. cost c \<le> max_cost ps) cards in
         if filtered_cards = [] then None
         else
           (let scored_cards = score_cards ps filtered_cards in
            (case sort_reverse scored_cards of
               [] \<Rightarrow> None
             | first # _ \<Rightarrow> Some (fst first)))))"

subsection \<open>CostBalanceStrategy\<close>

text \<open>
  The weights are a dictionary from cost to float; \<^verbatim>\<open>cost_weights or {1: 1.0, ...}\<close>
  replaces \<^verbatim>\<open>None\<close> and the empty dictionary by the default table. A dictionary is
  kept as an association list (looked up with \<^const>\<open>map_of\<close>).
\<close>

record CostBalanceStrategy =
  cost_weights :: "(int \<times> real) list"

definition CostBalanceStrategy_init :: "(int \<times> real) list option \<Rightarrow> CostBalanceStrategy" where
  "CostBalanceStrategy_init cw =
     \<lparr> cost_weights =
         (case cw of
            None \<Rightarrow> [(1, 1), (2, 1), (3, 1), (4, 1), (5, 1)]
          | Some w \<Rightarrow> (if w = [] then [(1, 1), (2, 1), (3, 1), (4, 1), (5, 1)] else w)) \<rparr>"

fun insert_desc_real :: "('a \<times> real) \<Rightarrow> ('a \<times> real) list \<Rightarrow> ('a \<times> real) list" where
  "insert_desc_real x [] = [x]"
| "insert_desc_real x (y # ys) =
     (if snd y \<le> snd x then x # y # ys else y # insert_desc_real x ys)"

fun sort_reverse_real :: "('a \<times> real) list \<Rightarrow> ('a \<times> real) list" where
  "sort_reverse_real [] = []"
| "sort_reverse_real (x # xs) = insert_desc_real x (sort_reverse_real xs)"

definition cost_balance_select_card ::
  "CostBalanceStrategy \<Rightarrow> Card list \<Rightarrow> GameState \<Rightarrow> Card option" where
  "cost_balance_select_card cb cards game_state =
     (if cards = [] then None
      else
        (let scored_cards =
               map (\<lambda>c.
                     (let weight = (case map_of (cost_weights cb) (cost c) of
                                      Some w \<Rightarrow> w | None \<Rightarrow> 1);
                          score = weight + confidence c * (1 / 10)
                      in (c, score))) cards
         in (case sort_reverse_real scored_cards of
               [] \<Rightarrow> None
             | first # _ \<Rightarrow> Some (fst first))))"

subsection \<open>CompBuildingStrategy\<close>

record CompBuildingStrategy =
  target_comp :: "string list"
  current_comp :: "string list"

definition CompBuildingStrategy_init :: "string list option \<Rightarrow> CompBuildingStrategy" where
  "CompBuildingStrategy_init tc =
     \<lparr> target_comp = (case tc of None \<Rightarrow> [] | Some l \<Rightarrow> l), current_comp = [] \<rparr>"

text \<open>
  \<^verbatim>\<open>[c for c in available_cards if c.name in self.target_comp]\<close>, then the first
  element of that list when it is not empty.
\<close>

definition comp_select_card ::
  "CompBuildingStrategy \<Rightarrow> Card list \<Rightarrow> GameState \<Rightarrow> Card option" where
  "comp_select_card cs cards game_state =
     (if cards = [] then None
      else
        (let priority_cards = filter (\<lambda>c. name c \<in> set (target_comp cs)) cards in
         (case priority_cards of
            [] \<Rightarrow> None
          | first # _ \<Rightarrow> Some first)))"


section \<open>Template matching (modules/image\_recognition/template\_matcher.py)\<close>

text \<open>
  A numpy array is known to the code through its \<^verbatim>\<open>shape\<close> and \<^verbatim>\<open>size\<close> only; the pixel
  buffer goes to OpenCV unread. \<^verbatim>\<open>size\<close> is the product of the dimensions, so
  \<^verbatim>\<open>np.array([])\<close>, of shape \<^verbatim>\<open>(0,)\<close>, has size 0.
\<close>

record ndarray =
  shape :: "nat list"
  buf :: "nat list"

definition ndarray_size :: "ndarray \<Rightarrow> nat" where
  "ndarray_size a = prod_list (shape a)"

definition np_array_empty :: ndarray where
  "np_array_empty = \<lparr> shape = [0], buf = [] \<rparr>"

datatype py_exception = cv2_error | ValueError | IndexError | CallbackError

text \<open>
  OpenCV is not part of the repository; the two ways the code uses it are parameters.
  \<open>matchTemplate src tpl\<close> stands for
  \<^verbatim>\<open>cv2.matchTemplate(src, tpl, cv2.TM_CCOEFF_NORMED)\<close>: it raises, or returns the
  correlation surface as rows of scores (floats, read as reals: they are only
  compared). \<open>hsv_inRange_count img lower upper\<close> stands for
  \<^verbatim>\<open>np.sum(cv2.inRange(cv2.cvtColor(img, cv2.COLOR_BGR2HSV), lower, upper) > 0)\<close>,
  the number of pixels inside a colour band, or the exception raised on the way.
\<close>

record cv2_lib =
  matchTemplate :: "ndarray \<Rightarrow> ndarray \<Rightarrow> py_exception + real list list"
  hsv_inRange_count :: "ndarray \<Rightarrow> nat list \<Rightarrow> nat list \<Rightarrow> py_exception + nat"

record TemplateInfo =
  filepath :: string
  category :: string
  tsize :: "nat list"

text \<open>
  The two dictionaries of the matcher are association lists in insertion order.
\<close>

record TemplateMatcher =
  templates :: "(string \<times> ndarray) list"
  templates_info :: "(string \<times> TemplateInfo) list"
  default_threshold :: real

definition TemplateMatcher_init :: "real option \<Rightarrow> TemplateMatcher" where
  "TemplateMatcher_init dt =
     \<lparr> templates = [], templates_info = [],
       default_threshold = (case dt of None \<Rightarrow> 0.8 | Some t \<Rightarrow> t) \<rparr>"

definition clear_templates :: "TemplateMatcher \<Rightarrow> TemplateMatcher" where
  "clear_templates tm = tm\<lparr>templates := [], templates_info := []\<rparr>"

record MatchResult =
  m_name :: string
  top_left :: "nat \<times> nat"
  bottom_right :: "nat \<times> nat"
  center :: "nat \<times> nat"
  m_confidence :: real
  m_width :: nat
  m_height :: nat

text \<open>
  \<^verbatim>\<open>threshold or self.default_threshold\<close>: Python's \<^verbatim>\<open>or\<close> yields its right operand
  when the left one is falsy, and both \<^verbatim>\<open>None\<close> and the float \<^verbatim>\<open>0.0\<close> are falsy.
\<close>

definition threshold_or :: "real option \<Rightarrow> real \<Rightarrow> real" where
  "threshold_or threshold dflt =
     (case threshold of None \<Rightarrow> dflt | Some t \<Rightarrow> (if t = 0 then dflt else t))"

text \<open>
  \<^verbatim>\<open>np.where(result >= threshold)\<close> followed by \<^verbatim>\<open>zip(*locations)\<close>: the pairs
  \<open>(y, x)\<close> in row-major order whose score reaches the threshold; the score is kept
  beside the pair for \<^verbatim>\<open>float(result[y, x])\<close>.
\<close>

definition np_where_ge :: "real list list \<Rightarrow> real \<Rightarrow> (nat \<times> nat \<times> real) list" where
  "np_where_ge result threshold =
     concat (map (\<lambda>(y, row).
                    map (\<lambda>(x, v). (y, x, v))
                        (filter (\<lambda>(x, v). v \<ge> threshold) (List.enumerate 0 row)))
                 (List.enumerate 0 result))"

definition make_match :: "string \<Rightarrow> nat \<Rightarrow> nat \<Rightarrow> (nat \<times> nat \<times> real) \<Rightarrow> MatchResult" where
  "make_match template_name h w loc =
     (case loc of (y, x, v) \<Rightarrow>
        \<lparr> m_name = template_name, top_left = (x, y), bottom_right = (x + w, y + h),
          center = (x + w div 2, y + h div 2), m_confidence = v,
          m_width = w, m_height = h \<rparr>)"

text \<open>
  The body of the \<^verbatim>\<open>try\<close> block of \<^verbatim>\<open>match_template\<close>. \<^verbatim>\<open>h, w = template.shape[:2]\<close>
  raises \<^verbatim>\<open>ValueError\<close> when the template has fewer than two dimensions.
\<close>

definition match_template_try ::
  "cv2_lib \<Rightarrow> ndarray \<Rightarrow> ndarray \<Rightarrow> string \<Rightarrow> real \<Rightarrow> py_exception + MatchResult list" where
  "match_template_try cv source template template_name threshold =
     (case matchTemplate cv source template of
        Inl e \<Rightarrow> Inl e
      | Inr result \<Rightarrow>
          (let locations = np_where_ge result threshold in
           (case shape template of
              h # w # _ \<Rightarrow> Inr (map (make_match template_name h w) locations)
            | _ \<Rightarrow> Inl ValueError)))"

text \<open>
  \<^verbatim>\<open>match_template\<close>: an unknown template name gives the empty list; so does every
  exception of the \<^verbatim>\<open>try\<close> block (\<^verbatim>\<open>except Exception: return []\<close>).
\<close>

definition match_template ::
  "cv2_lib \<Rightarrow> TemplateMatcher \<Rightarrow> ndarray \<Rightarrow> string \<Rightarrow> real option \<Rightarrow> MatchResult list" where
  "match_template cv tm source template_name threshold =
     (case map_of (templates tm) template_name of
        None \<Rightarrow> []
      | Some template \<Rightarrow>
          (let thr = threshold_or threshold (default_threshold tm) in
           (case match_template_try cv source template template_name thr of
              Inl e \<Rightarrow> []
            | Inr matches \<Rightarrow> matches)))"

text \<open>
  \<^verbatim>\<open>match_all_templates\<close>: one entry per template that matched somewhere, in the
  order of the template dictionary.
\<close>

definition match_all_templates ::
  "cv2_lib \<Rightarrow> TemplateMatcher \<Rightarrow> ndarray \<Rightarrow> real option \<Rightarrow> (string \<times> MatchResult list) list" where
  "match_all_templates cv tm source threshold =
     (let thr = threshold_or threshold (default_threshold tm) in
      filter (\<lambda>(n, matches). matches \<noteq> [])
        (map (\<lambda>template_name. (template_name, match_template cv tm source template_name (Some thr)))
             (map fst (templates tm))))"


section \<open>Card recognition (modules/image\_recognition/card\_recognizer.py)\<close>

record Region =
  r_left :: int
  r_top :: int
  r_width :: int
  r_height :: int

definition DEFAULT_SHOP_REGIONS :: "Region list" where
  "DEFAULT_SHOP_REGIONS =
     [\<lparr>r_left = 200, r_top = 500, r_width = 150, r_height = 200\<rparr>,
      \<lparr>r_left = 400, r_top = 500, r_width = 150, r_height = 200\<rparr>,
      \<lparr>r_left = 600, r_top = 500, r_width = 150, r_height = 200\<rparr>,
      \<lparr>r_left = 800, r_top = 500, r_width = 150, r_height = 200\<rparr>,
      \<lparr>r_left = 1000, r_top = 500, r_width = 150, r_height = 200\<rparr>]"

text \<open>
  The recogniser owns the \<^verbatim>\<open>GameState\<close> object; the controller's \<^verbatim>\<open>game_state\<close>
  attribute is an alias of it, so the model keeps the one copy here.
\<close>

record CardRecognizer =
  template_matcher :: TemplateMatcher
  game_state :: GameState
  shop_regions :: "Region list"

definition CardRecognizer_init :: CardRecognizer where
  "CardRecognizer_init =
     \<lparr> template_matcher = TemplateMatcher_init (Some 0.75),
       game_state = GameState_init,
       shop_regions = DEFAULT_SHOP_REGIONS \<rparr>"

text \<open>
  What the screen shows during one call of \<^verbatim>\<open>refresh_and_recognize\<close>: the full-screen
  capture taken by \<^verbatim>\<open>detect_shop_phase\<close>, the one taken by \<^verbatim>\<open>recognize_cards\<close>, the
  capture of a region for the slot of each index, and the clock reading of
  \<^verbatim>\<open>update_phase\<close>. A capture that fails returns \<^verbatim>\<open>np.array([])\<close>.
\<close>

record Screen =
  full_screen_detect :: ndarray
  full_screen_recognize :: ndarray
  capture_region :: "nat \<Rightarrow> int \<Rightarrow> int \<Rightarrow> int \<Rightarrow> int \<Rightarrow> ndarray"
  clock_phase :: real

text \<open>
  \<^verbatim>\<open>detect_shop_phase\<close>: an empty screenshot returns \<^verbatim>\<open>False\<close> and leaves the phase as
  it was; otherwise the share of gold-coloured pixels decides between the shop and
  the lobby. The OpenCV calls are outside any \<^verbatim>\<open>try\<close>, so their exception leaves the
  function.
\<close>

definition detect_shop_phase ::
  "cv2_lib \<Rightarrow> Screen \<Rightarrow> CardRecognizer \<Rightarrow> py_exception + (bool \<times> CardRecognizer)" where
  "detect_shop_phase cv scr cr =
     (let screenshot = full_screen_detect scr in
      if ndarray_size screenshot = 0 then Inr (False, cr)
      else
        (case hsv_inRange_count cv screenshot [20, 100, 200] [40, 255, 255] of
           Inl e \<Rightarrow> Inl e
         | Inr gold_pixels \<Rightarrow>
             (case shape screenshot of
                h # w # _ \<Rightarrow>
                  (let gold_ratio = real gold_pixels / real (h * w);
                       is_shop = (gold_ratio > 0.02)
                   in if is_shop
                      then Inr (True, cr\<lparr>game_state := set_shop_phase (clock_phase scr) (game_state cr)\<rparr>)
                      else Inr (False, cr\<lparr>game_state := set_lobby_phase (clock_phase scr) (game_state cr)\<rparr>))
              | _ \<Rightarrow> Inl IndexError)))"

text \<open>
  \<^verbatim>\<open>_estimate_cost\<close>: the cost whose colour band holds the most pixels, the earliest
  one on a tie, 1 when no band holds a pixel or when OpenCV raises.
\<close>

definition cost_ranges :: "(int \<times> nat list \<times> nat list) list" where
  "cost_ranges =
     [(1, [40, 200, 200], [50, 255, 255]),
      (2, [20, 150, 200], [30, 255, 255]),
      (3, [0, 100, 200], [10, 200, 255]),
      (4, [120, 100, 200], [140, 255, 255]),
      (5, [0, 0, 200], [180, 50, 255])]"

fun estimate_loop ::
  "cv2_lib \<Rightarrow> ndarray \<Rightarrow> (int \<times> nat list \<times> nat list) list \<Rightarrow> int \<Rightarrow> nat \<Rightarrow> py_exception + int" where
  "estimate_loop cv img [] best_cost max_pixels = Inr best_cost"
| "estimate_loop cv img ((c, lower, upper) # rest) best_cost max_pixels =
     (case hsv_inRange_count cv img lower upper of
        Inl e \<Rightarrow> Inl e
      | Inr pixel_count \<Rightarrow>
          (if pixel_count > max_pixels
           then estimate_loop cv img rest c pixel_count
           else estimate_loop cv img rest best_cost max_pixels))"

definition estimate_cost :: "cv2_lib \<Rightarrow> ndarray \<Rightarrow> int" where
  "estimate_cost cv card_image =
     (case estimate_loop cv card_image cost_ranges 1 0 of
        Inl e \<Rightarrow> 1
      | Inr c \<Rightarrow> c)"

text \<open>
  The double loop of \<^verbatim>\<open>_recognize_single_card\<close> over all matches of all templates: a
  match replaces the best one only when its confidence is strictly greater.
\<close>

fun best_of_matches ::
  "string \<Rightarrow> MatchResult list \<Rightarrow> (string \<times> real) option \<times> real \<Rightarrow> (string \<times> real) option \<times> real" where
  "best_of_matches template_name [] acc = acc"
| "best_of_matches template_name (m # ms) (best_match, best_confidence) =
     (if m_confidence m > best_confidence
      then best_of_matches template_name ms (Some (template_name, m_confidence m), m_confidence m)
      else best_of_matches template_name ms (best_match, best_confidence))"

fun best_of_results ::
  "(string \<times> MatchResult list) list \<Rightarrow> (string \<times> real) option \<times> real \<Rightarrow> (string \<times> real) option \<times> real" where
  "best_of_results [] acc = acc"
| "best_of_results ((template_name, matches) # rest) acc =
     best_of_results rest (best_of_matches template_name matches acc)"

definition recognize_single_card :: "cv2_lib \<Rightarrow> TemplateMatcher \<Rightarrow> ndarray \<Rightarrow> nat \<Rightarrow> Card option" where
  "recognize_single_card cv tm card_image idx =
     (let template_results = match_all_templates cv tm card_image (Some 0.7) in
      (case fst (best_of_results template_results (None, 0.7)) of
         None \<Rightarrow> None
       | Some (n, conf) \<Rightarrow>
           Some ((Card_init n (estimate_cost cv card_image) None [] conf None)
                   \<lparr>shop_index := Some idx\<rparr>)))"

text \<open>
  The loop of \<^verbatim>\<open>recognize_cards\<close> over \<^verbatim>\<open>enumerate(self.shop_regions)\<close>; \<open>i\<close> is the
  index of the first region of the list. It returns the cards and the slot entries
  appended, in order.
\<close>

fun recognize_slots ::
  "cv2_lib \<Rightarrow> Screen \<Rightarrow> TemplateMatcher \<Rightarrow> nat \<Rightarrow> Region list \<Rightarrow> Card list \<times> ShopSlot list" where
  "recognize_slots cv scr tm i [] = ([], [])"
| "recognize_slots cv scr tm i (region # rest) =
     (let card_image = capture_region scr i (r_left region) (r_top region)
                         (r_width region) (r_height region)
      in if ndarray_size card_image = 0 then recognize_slots cv scr tm (Suc i) rest
         else
           (case recognize_single_card cv tm card_image i of
              None \<Rightarrow> recognize_slots cv scr tm (Suc i) rest
            | Some c \<Rightarrow>
                (let c' = set_position c (r_left region + r_width region div 2)
                                         (r_top region + r_height region div 2);
                     slot = \<lparr> slot_index = i, slot_position = (r_left region, r_top region),
                              has_card = True \<rparr>;
                     later = recognize_slots cv scr tm (Suc i) rest
                 in (c' # fst later, slot # snd later))))"

definition recognize_cards :: "cv2_lib \<Rightarrow> Screen \<Rightarrow> CardRecognizer \<Rightarrow> Card list \<times> CardRecognizer" where
  "recognize_cards cv scr cr =
     (if ndarray_size (full_screen_recognize scr) = 0 then ([], cr)
      else
        (let found = recognize_slots cv scr (template_matcher cr) 0 (shop_regions cr);
             cards = fst found
         in (cards,
             cr\<lparr>game_state := (game_state cr)\<lparr>shop_slots := snd found, available_cards := cards\<rparr>\<rparr>)))"

definition refresh_and_recognize ::
  "cv2_lib \<Rightarrow> Screen \<Rightarrow> CardRecognizer \<Rightarrow> py_exception + (Card list \<times> CardRecognizer)" where
  "refresh_and_recognize cv scr cr =
     (case detect_shop_phase cv scr cr of
        Inl e \<Rightarrow> Inl e
      | Inr (is_shop, cr1) \<Rightarrow>
          (if phase (game_state cr1) = SHOPPING
           then Inr (recognize_cards cv scr cr1)
           else Inr ([], cr1)))"

text \<open>
  \<^verbatim>\<open>get_card_position\<close> tests \<^verbatim>\<open>if card.position\<close>; a position is a two-element tuple,
  which is truthy whatever it holds, so the fall-back through the slot index is
  never taken.
\<close>

definition tuple_truthy :: "int \<times> int \<Rightarrow> bool" where
  "tuple_truthy p = True"

definition get_card_position :: "CardRecognizer \<Rightarrow> Card \<Rightarrow> int \<times> int" where
  "get_card_position cr c =
     (if tuple_truthy (position c) then position c
      else
        (case shop_index c of
           Some i \<Rightarrow>
             (if i < length (shop_regions cr)
              then (let region = shop_regions cr ! i
                    in (r_left region + r_width region div 2,
                        r_top region + r_height region div 2))
              else (0, 0))
         | None \<Rightarrow> (0, 0)))"


section \<open>Strategy manager (core/strategy.py)\<close>

text \<open>
  The three strategy classes share the interface \<^verbatim>\<open>select_card\<close>; a strategy object is
  one of them, and the call goes to the method of its class.
\<close>

datatype PickStrategy =
  Priority PriorityStrategy
| CostBalance CostBalanceStrategy
| CompBuilding CompBuildingStrategy

fun strategy_select_card :: "PickStrategy \<Rightarrow> Card list \<Rightarrow> GameState \<Rightarrow> Card option" where
  "strategy_select_card (Priority ps) cards gs = select_card ps cards gs"
| "strategy_select_card (CostBalance cb) cards gs = cost_balance_select_card cb cards gs"
| "strategy_select_card (CompBuilding cs) cards gs = comp_select_card cs cards gs"

record StrategyManager =
  strategies :: "(string \<times> PickStrategy) list"
  current_strategy_name :: "string option"

definition StrategyManager_init :: StrategyManager where
  "StrategyManager_init =
     \<lparr> strategies =
         [(''priority'', Priority (PriorityStrategy_init None None None)),
          (''cost_balance'', CostBalance (CostBalanceStrategy_init None)),
          (''comp_building'', CompBuilding (CompBuildingStrategy_init None))],
       current_strategy_name = Some ''priority'' \<rparr>"

definition get_current_strategy :: "StrategyManager \<Rightarrow> PickStrategy option" where
  "get_current_strategy sm =
     (case current_strategy_name sm of
        None \<Rightarrow> None
      | Some n \<Rightarrow> (if n = [] then None else map_of (strategies sm) n))"

definition execute_selection :: "StrategyManager \<Rightarrow> Card list \<Rightarrow> GameState \<Rightarrow> Card option" where
  "execute_selection sm cards gs =
     (case get_current_strategy sm of
        Some strategy \<Rightarrow> strategy_select_card strategy cards gs
      | None \<Rightarrow> None)"


section \<open>Pointer control (modules/automation/mouse\_controller.py)\<close>

text \<open>
  What \<^verbatim>\<open>click_card\<close> reads from outside: the screen size reported by
  \<^verbatim>\<open>pyautogui.size()\<close>, the two random offsets it draws, and whether \<^verbatim>\<open>pyautogui\<close>
  raises while the pointer is moved and pressed (its fail-safe, a display that is gone).
\<close>

record Pointer =
  screen_size :: "int \<times> int"
  click_offset :: "int \<times> int"
  pyautogui_raises :: bool

definition is_on_screen :: "Pointer \<Rightarrow> int \<Rightarrow> int \<Rightarrow> bool" where
  "is_on_screen ptr x y =
     (let tolerance = 10; screen_width = fst (screen_size ptr); screen_height = snd (screen_size ptr)
      in - tolerance \<le> x \<and> x \<le> screen_width + tolerance \<and>
         - tolerance \<le> y \<and> y \<le> screen_height + tolerance)"

text \<open>
  \<^verbatim>\<open>click\<close> returns nothing. Its body is one \<^verbatim>\<open>try\<close> whose handler logs the exception and
  drops it, so the caller cannot tell whether the button was pressed. The result here is
  the click made, if one was made.
\<close>

definition click :: "Pointer \<Rightarrow> int \<Rightarrow> int \<Rightarrow> (int \<times> int) option" where
  "click ptr x y = (if pyautogui_raises ptr then None else Some (x, y))"

text \<open>
  \<^verbatim>\<open>click_card\<close> returns \<^verbatim>\<open>False\<close> without clicking when the point is off the screen;
  otherwise it calls \<^verbatim>\<open>click\<close> at the point moved by the offsets and returns \<^verbatim>\<open>True\<close>,
  whatever \<^verbatim>\<open>click\<close> did. The first component is the boolean returned, the second
  the click made, if any.
\<close>

definition click_card :: "Pointer \<Rightarrow> int \<Rightarrow> int \<Rightarrow> bool \<times> (int \<times> int) option" where
  "click_card ptr card_x card_y =
     (if \<not> is_on_screen ptr card_x card_y then (False, None)
      else
        (let target_x = card_x + fst (click_offset ptr);
             target_y = card_y + snd (click_offset ptr)
         in (True, click ptr target_x target_y)))"


section \<open>The controller (modules/automation/game\_automator.py)\<close>

datatype AutoPickerState = STOPPED | RUNNING | PAUSED | DETECTING

text \<open>
  The controller object. The two \<^verbatim>\<open>threading.Event\<close> flags are booleans. Threads are
  numbered in the order they are started: \<open>threads_started\<close> counts the calls of
  \<^verbatim>\<open>Thread.start\<close>, \<open>live_loops\<close> lists the monitor threads whose loop has not
  returned (\<^verbatim>\<open>is_alive()\<close>), \<open>join_calls\<close> the threads \<^verbatim>\<open>stop_auto_picker\<close> waited for.
  \<open>click_card_calls\<close> lists the positions handed to \<^verbatim>\<open>MouseController.click_card\<close>,
  \<open>click_card_results\<close> the booleans it returned, call by call, and \<open>clicks\<close> the clicks
  that were made. A callback is user code: it returns, or raises.
\<close>

record GameAutomator =
  card_recognizer :: CardRecognizer
  strategy_manager :: StrategyManager
  auto_picker_state :: AutoPickerState
  pick_callback :: "(Card \<Rightarrow> py_exception option) option"
  monitor_thread :: "nat option"
  stop_event :: bool
  pause_event :: bool
  pick_cooldown :: real
  detect_interval :: real
  pick_count :: int
  total_picks :: int
  last_pick_time :: "real option"
  threads_started :: nat
  live_loops :: "nat list"
  join_calls :: "nat list"
  click_card_calls :: "(int \<times> int) list"
  click_card_results :: "bool list"
  clicks :: "(int \<times> int) list"

definition DEFAULT_PICK_COOLDOWN :: real where
  "DEFAULT_PICK_COOLDOWN = 0.5"

definition DEFAULT_DETECT_INTERVAL :: real where
  "DEFAULT_DETECT_INTERVAL = 0.3"

definition GameAutomator_init :: GameAutomator where
  "GameAutomator_init =
     \<lparr> card_recognizer = CardRecognizer_init,
       strategy_manager = StrategyManager_init,
       auto_picker_state = STOPPED,
       pick_callback = None,
       monitor_thread = None,
       stop_event = False,
       pause_event = False,
       pick_cooldown = DEFAULT_PICK_COOLDOWN,
       detect_interval = DEFAULT_DETECT_INTERVAL,
       pick_count = 0,
       total_picks = 0,
       last_pick_time = None,
       threads_started = 0,
       live_loops = [],
       join_calls = [],
       click_card_calls = [],
       click_card_results = [],
       clicks = [] \<rparr>"

subsection \<open>Lifecycle\<close>

definition start_auto_picker :: "GameAutomator \<Rightarrow> bool \<times> GameAutomator" where
  "start_auto_picker s =
     (if auto_picker_state s = RUNNING then (False, s)
      else
        (True,
         s\<lparr> stop_event := False,
            pause_event := False,
            auto_picker_state := RUNNING,
            monitor_thread := Some (threads_started s),
            live_loops := live_loops s @ [threads_started s],
            threads_started := Suc (threads_started s) \<rparr>))"

definition stop_auto_picker :: "GameAutomator \<Rightarrow> bool \<times> GameAutomator" where
  "stop_auto_picker s =
     (if auto_picker_state s = STOPPED then (False, s)
      else
        (let s1 = s\<lparr>stop_event := True, auto_picker_state := STOPPED\<rparr>
         in (case monitor_thread s1 of
               Some t \<Rightarrow>
                 (if t \<in> set (live_loops s1)
                  then (True, s1\<lparr>join_calls := join_calls s1 @ [t]\<rparr>)
                  else (True, s1))
             | None \<Rightarrow> (True, s1))))"

definition pause_auto_picker :: "GameAutomator \<Rightarrow> bool \<times> GameAutomator" where
  "pause_auto_picker s =
     (if auto_picker_state s \<noteq> RUNNING then (False, s)
      else (True, s\<lparr>pause_event := True, auto_picker_state := PAUSED\<rparr>))"

definition resume_auto_picker :: "GameAutomator \<Rightarrow> bool \<times> GameAutomator" where
  "resume_auto_picker s =
     (if auto_picker_state s \<noteq> PAUSED then (False, s)
      else (True, s\<lparr>pause_event := False, auto_picker_state := RUNNING\<rparr>))"

definition set_pick_cooldown :: "real \<Rightarrow> GameAutomator \<Rightarrow> GameAutomator" where
  "set_pick_cooldown cooldown s = s\<lparr>pick_cooldown := max 0.1 cooldown\<rparr>"

definition set_detect_interval :: "real \<Rightarrow> GameAutomator \<Rightarrow> GameAutomator" where
  "set_detect_interval interval s = s\<lparr>detect_interval := max 0.1 interval\<rparr>"


subsection \<open>One tick\<close>

text \<open>
  \<^verbatim>\<open>_can_pick\<close> reads the clock only when there is a last pick time; \<open>now\<close> is that
  reading.
\<close>

definition can_pick :: "real \<Rightarrow> GameAutomator \<Rightarrow> bool" where
  "can_pick now s =
     (case last_pick_time s of
        None \<Rightarrow> True
      | Some t \<Rightarrow> (let elapsed = now - t in elapsed \<ge> pick_cooldown s))"

text \<open>
  \<^verbatim>\<open>card.select()\<close> changes the card object itself, and that object is an element of
  \<^verbatim>\<open>game_state.available_cards\<close> when it comes from a tick. Each strategy returns the
  first element of its list that has the value it returns, so the object is the
  first list element equal to the card.
\<close>

fun mark_selected :: "Card \<Rightarrow> Card list \<Rightarrow> Card list" where
  "mark_selected c [] = []"
| "mark_selected c (x # xs) = (if x = c then select x # xs else x # mark_selected c xs)"

text \<open>
  \<^verbatim>\<open>_pick_card\<close>. The result is the boolean returned, or the exception of the callback;
  \<open>now\<close> is the clock reading stored as the last pick time.
\<close>

definition pick_card ::
  "Pointer \<Rightarrow> real \<Rightarrow> Card \<Rightarrow> GameAutomator \<Rightarrow> (py_exception + bool) \<times> GameAutomator" where
  "pick_card ptr now c s =
     (let pos = get_card_position (card_recognizer s) c in
      if \<not> tuple_truthy pos \<or> pos = (0, 0) then (Inr False, s)
      else
        (let clicked = click_card ptr (fst pos) (snd pos);
             success = fst clicked;
             s1 = s\<lparr> click_card_calls := click_card_calls s @ [pos],
                     click_card_results := click_card_results s @ [success],
                     clicks := (case snd clicked of None \<Rightarrow> clicks s | Some p \<Rightarrow> clicks s @ [p]) \<rparr>
         in if success then
              (let cr = card_recognizer s1;
                   gs = game_state cr;
                   s2 = s1\<lparr> card_recognizer :=
                             cr\<lparr>game_state := gs\<lparr>available_cards := mark_selected c (available_cards gs)\<rparr>\<rparr>,
                           pick_count := pick_count s1 + 1,
                           total_picks := total_picks s1 + 1,
                           last_pick_time := Some now \<rparr>
               in (case pick_callback s2 of
                     None \<Rightarrow> (Inr success, s2)
                   | Some callback \<Rightarrow>
                       (case callback (select c) of
                          None \<Rightarrow> (Inr success, s2)
                        | Some e \<Rightarrow> (Inl e, s2))))
            else (Inr success, s1)))"

text \<open>
  What one tick reads from outside: the screen, the pointer device and the two clock
  readings (in \<^verbatim>\<open>_can_pick\<close> and after a successful click).
\<close>

record Tick =
  screen :: Screen
  pointer :: Pointer
  clock_can_pick :: real
  clock_pick :: real

text \<open>
  \<^verbatim>\<open>_process_shop_phase\<close>. The first component is the exception that leaves the
  function, if any; the state is returned as the exception found it.
\<close>

definition process_shop_phase ::
  "cv2_lib \<Rightarrow> Tick \<Rightarrow> GameAutomator \<Rightarrow> py_exception option \<times> GameAutomator" where
  "process_shop_phase cv tk s =
     (if \<not> is_active (game_state (card_recognizer s)) then (None, s)
      else
        (case refresh_and_recognize cv (screen tk) (card_recognizer s) of
           Inl e \<Rightarrow> (Some e, s)
         | Inr (cards, cr) \<Rightarrow>
             (let s1 = s\<lparr>card_recognizer := cr\<rparr> in
              if cards = [] then (None, s1)
              else
                (case execute_selection (strategy_manager s1) cards (game_state cr) of
                   None \<Rightarrow> (None, s1)
                 | Some selected_card \<Rightarrow>
                     (if can_pick (clock_can_pick tk) s1
                      then
                        (case pick_card (pointer tk) (clock_pick tk) selected_card s1 of
                           (Inl e, s2) \<Rightarrow> (Some e, s2)
                         | (Inr picked, s2) \<Rightarrow> (None, s2))
                      else (None, s1))))))"

text \<open>
  One pass through the body of \<^verbatim>\<open>_monitor_loop\<close> by the thread \<open>t\<close>: the loop returns
  when the stop flag is set, idles when the pause flag is set, and otherwise runs a
  tick whose exception it logs and drops.
\<close>

definition monitor_loop_iteration :: "cv2_lib \<Rightarrow> Tick \<Rightarrow> nat \<Rightarrow> GameAutomator \<Rightarrow> GameAutomator" where
  "monitor_loop_iteration cv tk t s =
     (if t \<notin> set (live_loops s) then s
      else if stop_event s then s\<lparr>live_loops := removeAll t (live_loops s)\<rparr>
      else if pause_event s then s
      else snd (process_shop_phase cv tk s))"


section \<open>The specification's vocabulary\<close>

text \<open>
  The rank index of a name in the priority list: the number of entries in front of its
  first occurrence. The score the specification gives a candidate of the priority
  strategy: the length of the priority list minus the rank index of the candidate's
  name, plus ten times the cost when higher costs are preferred. Both are stated
  apart from \<^const>\<open>get_priority_index\<close> and the scoring loop of \<^const>\<open>select_card\<close>, to
  be compared with them.
\<close>

definition rank_index :: "string list \<Rightarrow> string \<Rightarrow> nat" where
  "rank_index pl n = length (takeWhile (\<lambda>x. x \<noteq> n) pl)"

definition priority_score :: "PriorityStrategy \<Rightarrow> Card \<Rightarrow> int" where
  "priority_score ps c =
     (int (length (priority_list ps)) - int (rank_index (priority_list ps) (name c)))
     + (if prefer_higher_cost ps then cost c * 10 else 0)"

text \<open>
  What the matcher relies on OpenCV for when the source is empty: in a source of size
  0 it finds no location, because it raises or because the surface it returns has
  no entry.
\<close>

definition cv_finds_nothing_in_empty :: "cv2_lib \<Rightarrow> bool" where
  "cv_finds_nothing_in_empty cv \<longleftrightarrow>
     (\<forall>source template. ndarray_size source = 0 \<longrightarrow>
        (case matchTemplate cv source template of
           Inl e \<Rightarrow> True
         | Inr result \<Rightarrow> concat result = []))"


text \<open>
  A slot yields a confident match when its capture is not empty and
  \<^verbatim>\<open>_recognize_single_card\<close> returns a card for it.
\<close>

definition slot_recognized :: "cv2_lib \<Rightarrow> Screen \<Rightarrow> TemplateMatcher \<Rightarrow> Region \<Rightarrow> nat \<Rightarrow> bool" where
  "slot_recognized cv scr tm region i =
     (let card_image = capture_region scr i (r_left region) (r_top region)
                         (r_width region) (r_height region)
      in ndarray_size card_image \<noteq> 0 \<and> recognize_single_card cv tm card_image i \<noteq> None)"

definition slot_has_match :: "cv2_lib \<Rightarrow> Screen \<Rightarrow> CardRecognizer \<Rightarrow> nat \<Rightarrow> bool" where
  "slot_has_match cv scr cr i = slot_recognized cv scr (template_matcher cr) (shop_regions cr ! i) i"







section \<open>Example inputs\<close>

text \<open>
  An OpenCV stand-in, a recogniser with one template and two slots whose game state
  holds a selected card of an earlier cycle, and three screens: a shop in which only
  slot 1 shows the template, a lobby, and a capture that fails.
\<close>

definition demo_cv :: cv2_lib where
  "demo_cv =
     \<lparr> matchTemplate = (\<lambda>source template.
          if ndarray_size source = 0 then Inl cv2_error
          else if buf source = [1] then Inr [[0.9]] else Inr [[0.1]]),
       hsv_inRange_count = (\<lambda>img lower upper. Inr (if buf img = [7] then 4 else 0)) \<rparr>"

definition stale_card :: Card where
  "stale_card = select ((Card_init ''Vi'' 3 None [] 0.9 (Some (275, 600)))\<lparr>shop_index := Some 0\<rparr>)"

definition demo_recognizer :: CardRecognizer where
  "demo_recognizer =
     \<lparr> template_matcher =
         \<lparr> templates = [(''Jinx'', \<lparr>shape = [1, 1, 3], buf = []\<rparr>)], templates_info = [],
           default_threshold = 0.75 \<rparr>,
       game_state = GameState_init\<lparr>phase := SHOPPING, is_active := True, available_cards := [stale_card]\<rparr>,
       shop_regions = [\<lparr>r_left = 200, r_top = 500, r_width = 150, r_height = 200\<rparr>,
                       \<lparr>r_left = 400, r_top = 500, r_width = 150, r_height = 200\<rparr>] \<rparr>"

definition shop_screen :: Screen where
  "shop_screen =
     \<lparr> full_screen_detect = \<lparr>shape = [2, 2, 3], buf = [7]\<rparr>,
       full_screen_recognize = \<lparr>shape = [2, 2, 3], buf = [7]\<rparr>,
       capture_region = (\<lambda>i l t w h. \<lparr>shape = [1, 1, 3], buf = [i]\<rparr>),
       clock_phase = 10 \<rparr>"

definition lobby_screen :: Screen where
  "lobby_screen =
     \<lparr> full_screen_detect = \<lparr>shape = [2, 2, 3], buf = [0]\<rparr>,
       full_screen_recognize = \<lparr>shape = [2, 2, 3], buf = [0]\<rparr>,
       capture_region = (\<lambda>i l t w h. \<lparr>shape = [1, 1, 3], buf = [i]\<rparr>),
       clock_phase = 10 \<rparr>"

definition failed_screen :: Screen where
  "failed_screen =
     \<lparr> full_screen_detect = np_array_empty,
       full_screen_recognize = np_array_empty,
       capture_region = (\<lambda>i l t w h. np_array_empty),
       clock_phase = 10 \<rparr>"

definition fresh_card :: Card where
  "fresh_card = (Card_init ''Jinx'' 1 None [] 0.9 (Some (475, 600)))\<lparr>shop_index := Some 1\<rparr>"









section \<open>Rarity and card identity\<close>

text \<open>
  C8. \<^verbatim>\<open>CardRarity.from_cost\<close> maps each cost from 1 to 5 to the tier of that cost, and
  cost 0 and every other integer outside 1..5 to \<^verbatim>\<open>UNKNOWN\<close>.
\<close>

theorem from_cost_tiers:
  "from_cost 1 = ONE_COST \<and> from_cost 2 = TWO_COST \<and> from_cost 3 = THREE_COST \<and>
   from_cost 4 = FOUR_COST \<and> from_cost 5 = FIVE_COST \<and> from_cost 0 = UNKNOWN \<and>
   (\<forall>c. c \<notin> {1..5} \<longrightarrow> from_cost c = UNKNOWN)"
  by (simp add: from_cost_def cost_map_def)

theorem from_cost_tiers_witness:
  "(99::int) \<notin> {1..5} \<and> from_cost 99 = UNKNOWN \<and> from_cost (- 3) = UNKNOWN \<and>
   from_cost 6 = UNKNOWN \<and> from_cost 3 = THREE_COST"
  using from_cost_tiers by simp

text \<open>
  C4. Equality and hashing of cards look at the name alone: two cards are equal
  exactly when their names are, whatever their other attributes, and cards of equal
  name have equal hashes.
\<close>

theorem Card_eq_hash_by_name:
  "(Card_eq c1 (CardObj c2) \<longleftrightarrow> name c1 = name c2) \<and>
   (name c1 = name c2 \<longrightarrow> Card_hash h c1 = Card_hash h c2)"
  by (simp add: Card_hash_def)

theorem Card_eq_hash_by_name_witness:
  "Card_eq (Card_init ''Jinx'' 2 None [] 0.9 (Some (10, 20)))
           (CardObj ((Card_init ''Jinx'' 5 (Some [''Sniper'']) ''jinx.png'' 0.4 None)\<lparr>is_selected := True\<rparr>))
   \<and> Card_hash (\<lambda>s. int (length s)) (Card_init ''Jinx'' 2 None [] 0.9 (Some (10, 20)))
     = Card_hash (\<lambda>s. int (length s))
         ((Card_init ''Jinx'' 5 (Some [''Sniper'']) ''jinx.png'' 0.4 None)\<lparr>is_selected := True\<rparr>)
   \<and> \<not> Card_eq (Card_init ''Jinx'' 2 None [] 0.9 None) (CardObj (Card_init ''Vi'' 2 None [] 0.9 None))
   \<and> Card_init ''Jinx'' 2 None [] 0.9 (Some (10, 20))
       \<noteq> (Card_init ''Jinx'' 5 (Some [''Sniper'']) ''jinx.png'' 0.4 None)\<lparr>is_selected := True\<rparr>"
  using Card_eq_hash_by_name[of "Card_init ''Jinx'' 2 None [] 0.9 (Some (10, 20))"
          "(Card_init ''Jinx'' 5 (Some [''Sniper'']) ''jinx.png'' 0.4 None)\<lparr>is_selected := True\<rparr>"
          "\<lambda>s. int (length s)"]
        Card_eq_hash_by_name[of "Card_init ''Jinx'' 2 None [] 0.9 None"
          "Card_init ''Vi'' 2 None [] 0.9 None" "\<lambda>s. int (length s)"]
  by (simp add: Card_init_def)


section \<open>The priority strategy\<close>

lemma hd_insert_desc:
  "hd (insert_desc x ys) = (if ys = [] then x else if snd (hd ys) \<le> snd x then x else hd ys)"
  by (cases ys) auto

lemma insert_desc_not_Nil: "insert_desc x ys \<noteq> []"
  by (cases ys) auto

lemma set_insert_desc: "set (insert_desc x ys) = insert x (set ys)"
  by (induction ys) auto

lemma set_sort_reverse: "set (sort_reverse xs) = set xs"
  by (induction xs) (auto simp: set_insert_desc)

lemma sort_reverse_Nil: "sort_reverse xs = [] \<longleftrightarrow> xs = []"
  by (cases xs) (auto simp: insert_desc_not_Nil)

lemma hd_sort_reverse_max:
  "xs \<noteq> [] \<Longrightarrow> y \<in> set xs \<Longrightarrow> snd y \<le> snd (hd (sort_reverse xs))"
proof (induction xs arbitrary: y)
  case Nil
  then show ?case by simp
next
  case (Cons x xs)
  show ?case
  proof (cases "xs = []")
    case True
    with Cons.prems show ?thesis by simp
  next
    case False
    then have ne: "sort_reverse xs \<noteq> []" by (simp add: sort_reverse_Nil)
    from Cons.prems have "y = x \<or> y \<in> set xs" by auto
    then show ?thesis
    proof
      assume "y = x"
      then show ?thesis using ne by (auto simp: hd_insert_desc)
    next
      assume "y \<in> set xs"
      from Cons.IH[OF False this] show ?thesis using ne by (auto simp: hd_insert_desc)
    qed
  qed
qed

lemma list_index_None: "list_index xs x = None \<longleftrightarrow> x \<notin> set xs"
  by (induction xs) (auto split: option.splits)

lemma list_index_Some: "list_index xs x = Some i \<Longrightarrow> i < length xs \<and> xs ! i = x"
  by (induction xs arbitrary: i) (auto split: option.splits if_splits)

lemma get_priority_index_nonneg:
  "0 \<le> get_priority_index ps n \<longleftrightarrow> n \<in> set (priority_list ps)"
proof (cases "list_index (priority_list ps) n")
  case None
  then show ?thesis
    using list_index_None[of "priority_list ps" n] by (simp add: get_priority_index_def)
next
  case (Some i)
  then have "n \<in> set (priority_list ps)"
    using list_index_None[of "priority_list ps" n] by auto
  with Some show ?thesis by (simp add: get_priority_index_def)
qed

lemma list_index_takeWhile:
  "x \<in> set xs \<Longrightarrow> list_index xs x = Some (length (takeWhile (\<lambda>y. y \<noteq> x) xs))"
  by (induction xs) auto

lemma get_priority_index_rank:
  "n \<in> set (priority_list ps) \<Longrightarrow> get_priority_index ps n = int (rank_index (priority_list ps) n)"
  by (simp add: get_priority_index_def rank_index_def list_index_takeWhile)

lemma rank_index_first:
  assumes "i < length pl" "pl ! i = n" "\<forall>j<i. pl ! j \<noteq> n"
  shows "rank_index pl n = i"
proof -
  have "takeWhile (\<lambda>x. x \<noteq> n) pl = take i pl"
    using assms by (intro takeWhile_eq_take_P_nth) auto
  with assms(1) show ?thesis by (simp add: rank_index_def)
qed

lemma score_cards_member:
  "name c \<in> set (priority_list ps) \<Longrightarrow>
     score_cards ps (c # rest) = (c, priority_score ps c) # score_cards ps rest"
  using get_priority_index_nonneg[of ps "name c"]
  by (simp add: Let_def priority_score_def get_priority_index_rank)

lemma score_cards_not_member:
  "name c \<notin> set (priority_list ps) \<Longrightarrow> score_cards ps (c # rest) = score_cards ps rest"
  using get_priority_index_nonneg[of ps "name c"]
  by (simp add: Let_def)

lemma set_score_cards:
  "set (score_cards ps cs) =
     (\<lambda>c. (c, priority_score ps c)) ` {c \<in> set cs. name c \<in> set (priority_list ps)}"
proof (induction cs)
  case Nil
  then show ?case by simp
next
  case (Cons c cs)
  show ?case
  proof (cases "name c \<in> set (priority_list ps)")
    case True
    then show ?thesis
      unfolding score_cards_member[OF True] using Cons.IH by auto
  next
    case False
    then show ?thesis
      unfolding score_cards_not_member[OF False] using Cons.IH by auto
  qed
qed

lemma select_card_Some:
  assumes "select_card ps cards gs = Some c"
  shows "c \<in> set cards \<and> cost c \<le> max_cost ps \<and> name c \<in> set (priority_list ps) \<and>
     (\<forall>c'\<in>set cards. cost c' \<le> max_cost ps \<and> name c' \<in> set (priority_list ps)
         \<longrightarrow> priority_score ps c' \<le> priority_score ps c)"
proof -
  let ?f = "filter (\<lambda>c. cost c \<le> max_cost ps) cards"
  let ?s = "score_cards ps ?f"
  from assms have ne: "?s \<noteq> []" and c: "c = fst (hd (sort_reverse ?s))"
    by (auto simp: select_card_def Let_def sort_reverse_Nil split: if_splits list.splits)
  from ne have "hd (sort_reverse ?s) \<in> set ?s"
    by (metis hd_in_set set_sort_reverse sort_reverse_Nil)
  then have mem: "hd (sort_reverse ?s) = (c, priority_score ps c)"
    and cin: "c \<in> set ?f" and cn: "name c \<in> set (priority_list ps)"
    using c by (auto simp: set_score_cards)
  have "priority_score ps c' \<le> priority_score ps c"
    if "c' \<in> set cards" "cost c' \<le> max_cost ps" "name c' \<in> set (priority_list ps)" for c'
  proof -
    from that have "(c', priority_score ps c') \<in> set ?s" by (auto simp: set_score_cards)
    from hd_sort_reverse_max[OF ne this] show ?thesis by (simp add: mem)
  qed
  with cin cn show ?thesis by auto
qed

lemma select_card_None:
  "select_card ps cards gs = None \<longleftrightarrow>
     (\<forall>c\<in>set cards. \<not> (cost c \<le> max_cost ps \<and> name c \<in> set (priority_list ps)))"
proof -
  let ?f = "filter (\<lambda>c. cost c \<le> max_cost ps) cards"
  have "select_card ps cards gs = None \<longleftrightarrow> score_cards ps ?f = []"
    by (auto simp: select_card_def Let_def sort_reverse_Nil split: list.splits)
  also have "\<dots> \<longleftrightarrow> set (score_cards ps ?f) = {}" by simp
  also have "\<dots> \<longleftrightarrow> (\<forall>c\<in>set cards. \<not> (cost c \<le> max_cost ps \<and> name c \<in> set (priority_list ps)))"
    unfolding set_score_cards by auto
  finally show ?thesis .
qed

lemma select_card_filter:
  "select_card ps cards gs = select_card ps (filter (\<lambda>c. cost c \<le> max_cost ps) cards) gs"
  by (auto simp: select_card_def Let_def)

lemma select_card_example:
  assumes "priority_list ps = [na, nb, nc]" "\<not> prefer_higher_cost ps" "2 \<le> max_cost ps"
    "name x = na" "cost x = 2" "name y = nc" "cost y = 1"
  shows "select_card ps [x, y] gs = Some x"
  using assms by (auto simp: select_card_def Let_def get_priority_index_def)

lemma select_card_example_reversed:
  assumes "priority_list ps = [na, nb, nc]" "\<not> prefer_higher_cost ps" "2 \<le> max_cost ps"
    "name x = na" "cost x = 2" "name y = nc" "cost y = 1" "na \<noteq> nc"
  shows "select_card ps [y, x] gs = Some x"
  using assms by (auto simp: select_card_def Let_def get_priority_index_def)

text \<open>
  C1. \<^verbatim>\<open>PriorityStrategy.select_card\<close> returns \<^verbatim>\<open>None\<close> exactly when no candidate has a
  cost within \<^verbatim>\<open>max_cost\<close> and a name in the priority list; a card it returns is such a
  candidate, and no such candidate has a greater score. The score of a candidate
  whose name first occurs at position \<open>i\<close> of the priority list is the list length
  minus \<open>i\<close>, plus ten times the cost when higher costs are preferred. The candidates
  above \<^verbatim>\<open>max_cost\<close> are removed before scoring: the result is that of the filtered
  list, so with \<^verbatim>\<open>max_cost = 2\<close> no card of cost above 2 is returned, whatever its rank.
  With the priority list [A, B, C], the candidates A of cost 2 and C of cost 1 and the
  preference off, the choice is A, in whichever order the two candidates come.
\<close>

theorem select_card_priority:
  "(select_card ps cards gs = None \<longleftrightarrow>
      (\<forall>c\<in>set cards. \<not> (cost c \<le> max_cost ps \<and> name c \<in> set (priority_list ps))))
   \<and> (\<forall>c. select_card ps cards gs = Some c \<longrightarrow>
         c \<in> set cards \<and> cost c \<le> max_cost ps \<and> name c \<in> set (priority_list ps) \<and>
         (\<forall>c'\<in>set cards. cost c' \<le> max_cost ps \<and> name c' \<in> set (priority_list ps)
             \<longrightarrow> priority_score ps c' \<le> priority_score ps c))
   \<and> (\<forall>c i. i < length (priority_list ps) \<and> priority_list ps ! i = name c \<and>
            (\<forall>j<i. priority_list ps ! j \<noteq> name c) \<longrightarrow>
         priority_score ps c =
           int (length (priority_list ps)) - int i
           + (if prefer_higher_cost ps then cost c * 10 else 0))
   \<and> select_card ps cards gs = select_card ps (filter (\<lambda>c. cost c \<le> max_cost ps) cards) gs
   \<and> (max_cost ps = 2 \<longrightarrow> (\<forall>c. select_card ps cards gs = Some c \<longrightarrow> cost c \<le> 2))
   \<and> (priority_list ps = [na, nb, nc] \<and> \<not> prefer_higher_cost ps \<and> 2 \<le> max_cost ps \<and>
        name x = na \<and> cost x = 2 \<and> name y = nc \<and> cost y = 1
        \<longrightarrow> select_card ps [x, y] gs = Some x \<and>
            (na \<noteq> nc \<longrightarrow> select_card ps [y, x] gs = Some x))"
proof (intro conjI)
  show "select_card ps cards gs = None \<longleftrightarrow>
      (\<forall>c\<in>set cards. \<not> (cost c \<le> max_cost ps \<and> name c \<in> set (priority_list ps)))"
    by (rule select_card_None)
next
  show "\<forall>c. select_card ps cards gs = Some c \<longrightarrow>
         c \<in> set cards \<and> cost c \<le> max_cost ps \<and> name c \<in> set (priority_list ps) \<and>
         (\<forall>c'\<in>set cards. cost c' \<le> max_cost ps \<and> name c' \<in> set (priority_list ps)
             \<longrightarrow> priority_score ps c' \<le> priority_score ps c)"
    using select_card_Some by blast
next
  show "\<forall>c i. i < length (priority_list ps) \<and> priority_list ps ! i = name c \<and>
            (\<forall>j<i. priority_list ps ! j \<noteq> name c) \<longrightarrow>
         priority_score ps c =
           int (length (priority_list ps)) - int i
           + (if prefer_higher_cost ps then cost c * 10 else 0)"
  proof (intro allI impI)
    fix c :: Card and i
    assume h: "i < length (priority_list ps) \<and> priority_list ps ! i = name c \<and>
            (\<forall>j<i. priority_list ps ! j \<noteq> name c)"
    then have "rank_index (priority_list ps) (name c) = i"
      by (intro rank_index_first) auto
    then show "priority_score ps c =
           int (length (priority_list ps)) - int i
           + (if prefer_higher_cost ps then cost c * 10 else 0)"
      by (simp add: priority_score_def)
  qed
next
  show "select_card ps cards gs = select_card ps (filter (\<lambda>c. cost c \<le> max_cost ps) cards) gs"
    by (rule select_card_filter)
next
  show "max_cost ps = 2 \<longrightarrow> (\<forall>c. select_card ps cards gs = Some c \<longrightarrow> cost c \<le> 2)"
    using select_card_Some by fastforce
next
  show "priority_list ps = [na, nb, nc] \<and> \<not> prefer_higher_cost ps \<and> 2 \<le> max_cost ps \<and>
        name x = na \<and> cost x = 2 \<and> name y = nc \<and> cost y = 1
        \<longrightarrow> select_card ps [x, y] gs = Some x \<and>
            (na \<noteq> nc \<longrightarrow> select_card ps [y, x] gs = Some x)"
    using select_card_example select_card_example_reversed by blast
qed

theorem select_card_priority_witness:
  "select_card \<lparr>priority_list = [''A'', ''B'', ''C''], max_cost = 5, prefer_higher_cost = False\<rparr>
     [Card_init ''A'' 2 None [] 0.8 None, Card_init ''C'' 1 None [] 0.9 None] GameState_init
     = Some (Card_init ''A'' 2 None [] 0.8 None)
   \<and> select_card \<lparr>priority_list = [''A'', ''B'', ''C''], max_cost = 5, prefer_higher_cost = False\<rparr>
     [Card_init ''C'' 1 None [] 0.9 None, Card_init ''A'' 2 None [] 0.8 None] GameState_init
     = Some (Card_init ''A'' 2 None [] 0.8 None)
   \<and> priority_score \<lparr>priority_list = [''A'', ''B'', ''C''], max_cost = 5, prefer_higher_cost = False\<rparr>
        (Card_init ''C'' 1 None [] 0.9 None) = 1
   \<and> priority_score \<lparr>priority_list = [''A'', ''B'', ''C''], max_cost = 5, prefer_higher_cost = True\<rparr>
        (Card_init ''B'' 4 None [] 0.9 None) = 42
   \<and> select_card \<lparr>priority_list = [''A'', ''B'', ''C''], max_cost = 2, prefer_higher_cost = True\<rparr>
     [Card_init ''A'' 3 None [] 0.8 None, Card_init ''D'' 1 None [] 0.9 None] GameState_init
     = None"
proof (intro conjI)
  let ?ps = "\<lparr>priority_list = [''A'', ''B'', ''C''], max_cost = 5, prefer_higher_cost = False\<rparr>"
  let ?a = "Card_init ''A'' 2 None [] 0.8 None"
  let ?c = "Card_init ''C'' 1 None [] 0.9 None"
  have pre: "priority_list ?ps = [''A'', ''B'', ''C''] \<and> \<not> prefer_higher_cost ?ps \<and> 2 \<le> max_cost ?ps \<and>
        name ?a = ''A'' \<and> cost ?a = 2 \<and> name ?c = ''C'' \<and> cost ?c = 1"
    by (simp add: Card_init_def)
  have ne: "''A'' \<noteq> ''C''" by simp
  note L = select_card_priority[where ps = ?ps and gs = GameState_init and x = ?a and y = ?c
          and na = "''A''" and nb = "''B''" and nc = "''C''" and cards = "[]",
          THEN conjunct2, THEN conjunct2, THEN conjunct2, THEN conjunct2, THEN conjunct2,
          THEN mp, OF pre]
  show "select_card ?ps [?a, ?c] GameState_init = Some ?a"
    by (rule L[THEN conjunct1])
  show "select_card ?ps [?c, ?a] GameState_init = Some ?a"
    by (rule L[THEN conjunct2, THEN mp, OF ne])
  have c2: "2 < length (priority_list ?ps) \<and> priority_list ?ps ! 2 = name ?c \<and>
            (\<forall>j<2. priority_list ?ps ! j \<noteq> name ?c)"
    by (simp add: Card_init_def less_Suc_eq numeral_2_eq_2)
  have "priority_score ?ps ?c = int (length (priority_list ?ps)) - int 2
           + (if prefer_higher_cost ?ps then cost ?c * 10 else 0)"
    by (rule select_card_priority[where ps = ?ps and gs = GameState_init and cards = "[]",
          THEN conjunct2, THEN conjunct2, THEN conjunct1, THEN spec, THEN spec, THEN mp, OF c2])
  then show "priority_score ?ps ?c = 1" by simp
next
  let ?ps = "\<lparr>priority_list = [''A'', ''B'', ''C''], max_cost = 5, prefer_higher_cost = True\<rparr>"
  let ?b = "Card_init ''B'' 4 None [] 0.9 None"
  have b1: "1 < length (priority_list ?ps) \<and> priority_list ?ps ! 1 = name ?b \<and>
            (\<forall>j<1. priority_list ?ps ! j \<noteq> name ?b)"
    by (simp add: Card_init_def)
  have "priority_score ?ps ?b = int (length (priority_list ?ps)) - int 1
           + (if prefer_higher_cost ?ps then cost ?b * 10 else 0)"
    by (rule select_card_priority[where ps = ?ps and gs = GameState_init and cards = "[]",
          THEN conjunct2, THEN conjunct2, THEN conjunct1, THEN spec, THEN spec, THEN mp, OF b1])
  then show "priority_score ?ps ?b = 42" by (simp add: Card_init_def)
next
  let ?ps = "\<lparr>priority_list = [''A'', ''B'', ''C''], max_cost = 2, prefer_higher_cost = True\<rparr>"
  let ?cards = "[Card_init ''A'' 3 None [] 0.8 None, Card_init ''D'' 1 None [] 0.9 None]"
  have none: "\<forall>c\<in>set ?cards. \<not> (cost c \<le> max_cost ?ps \<and> name c \<in> set (priority_list ?ps))"
    by (simp add: Card_init_def)
  have eq: "select_card ?ps ?cards GameState_init = None \<longleftrightarrow>
      (\<forall>c\<in>set ?cards. \<not> (cost c \<le> max_cost ?ps \<and> name c \<in> set (priority_list ?ps)))"
    by (rule select_card_priority[where ps = ?ps and gs = GameState_init and cards = ?cards,
          THEN conjunct1])
  from eq none show "select_card ?ps ?cards GameState_init = None"
    by (rule iffD2)
qed


section \<open>The target-composition strategy\<close>

lemma filter_first_find: "(case filter P xs of [] \<Rightarrow> None | y # _ \<Rightarrow> Some y) = List.find P xs"
  by (induction xs) auto

lemma comp_select_card_find:
  "comp_select_card cs cards gs = List.find (\<lambda>c. name c \<in> set (target_comp cs)) cards"
  by (cases cards)
     (simp_all add: comp_select_card_def filter_first_find[symmetric] del: filter.simps)

text \<open>
  C9. \<^verbatim>\<open>CompBuildingStrategy.select_card\<close> returns the first candidate, in list order,
  whose name is in the target composition: it returns \<open>c\<close> exactly when the list
  splits into candidates outside the target, then \<open>c\<close> inside it, then the rest; it
  returns \<^verbatim>\<open>None\<close> exactly when no candidate's name is in the target, as for the empty
  list. Of two candidates that are both in the target the first is returned.
\<close>

theorem comp_select_card_first_match:
  "(comp_select_card cs cards gs = None \<longleftrightarrow> (\<forall>c\<in>set cards. name c \<notin> set (target_comp cs)))
   \<and> (\<forall>c. comp_select_card cs cards gs = Some c \<longleftrightarrow>
         (\<exists>pre post. cards = pre @ c # post \<and> name c \<in> set (target_comp cs) \<and>
            (\<forall>p\<in>set pre. name p \<notin> set (target_comp cs))))
   \<and> comp_select_card cs [] gs = None
   \<and> (name x \<in> set (target_comp cs) \<and> name y \<in> set (target_comp cs) \<longrightarrow>
         comp_select_card cs [x, y] gs = Some x)"
proof (intro conjI allI)
  show "comp_select_card cs cards gs = None \<longleftrightarrow> (\<forall>c\<in>set cards. name c \<notin> set (target_comp cs))"
    by (auto simp: comp_select_card_find find_None_iff)
next
  fix c
  show "comp_select_card cs cards gs = Some c \<longleftrightarrow>
         (\<exists>pre post. cards = pre @ c # post \<and> name c \<in> set (target_comp cs) \<and>
            (\<forall>p\<in>set pre. name p \<notin> set (target_comp cs)))"
  proof
    assume "comp_select_card cs cards gs = Some c"
    then obtain i where i: "i < length cards" "name (cards ! i) \<in> set (target_comp cs)"
        "c = cards ! i" "\<forall>j<i. name (cards ! j) \<notin> set (target_comp cs)"
      by (auto simp: comp_select_card_find find_Some_iff)
    have "cards = take i cards @ c # drop (Suc i) cards"
      using i(1,3) by (simp add: id_take_nth_drop)
    moreover have "\<forall>p\<in>set (take i cards). name p \<notin> set (target_comp cs)"
      using i(1,4) by (auto simp: in_set_conv_nth)
    ultimately show "\<exists>pre post. cards = pre @ c # post \<and> name c \<in> set (target_comp cs) \<and>
            (\<forall>p\<in>set pre. name p \<notin> set (target_comp cs))"
      using i(2,3) by blast
  next
    assume "\<exists>pre post. cards = pre @ c # post \<and> name c \<in> set (target_comp cs) \<and>
            (\<forall>p\<in>set pre. name p \<notin> set (target_comp cs))"
    then obtain pre post where h: "cards = pre @ c # post" "name c \<in> set (target_comp cs)"
      "\<forall>p\<in>set pre. name p \<notin> set (target_comp cs)" by blast
    have "List.find (\<lambda>c. name c \<in> set (target_comp cs)) (pre @ c # post) = Some c"
      using h(2,3) by (induction pre) auto
    then show "comp_select_card cs cards gs = Some c"
      by (simp add: comp_select_card_find h(1))
  qed
next
  show "comp_select_card cs [] gs = None" by (simp add: comp_select_card_def)
next
  show "name x \<in> set (target_comp cs) \<and> name y \<in> set (target_comp cs) \<longrightarrow>
         comp_select_card cs [x, y] gs = Some x"
    by (simp add: comp_select_card_find)
qed

theorem comp_select_card_first_match_witness:
  "comp_select_card \<lparr>target_comp = [''Y'', ''X''], current_comp = []\<rparr>
     [Card_init ''X'' 1 None [] 0.8 None, Card_init ''Y'' 4 None [] 0.9 None] GameState_init
     = Some (Card_init ''X'' 1 None [] 0.8 None)
   \<and> comp_select_card \<lparr>target_comp = [''Y'', ''X''], current_comp = []\<rparr>
     [Card_init ''Z'' 1 None [] 0.8 None] GameState_init = None"
proof
  let ?cs = "\<lparr>target_comp = [''Y'', ''X''], current_comp = []\<rparr>"
  let ?x = "Card_init ''X'' 1 None [] 0.8 None"
  let ?y = "Card_init ''Y'' 4 None [] 0.9 None"
  have pre: "name ?x \<in> set (target_comp ?cs) \<and> name ?y \<in> set (target_comp ?cs)"
    by (simp add: Card_init_def)
  have ex: "name ?x \<in> set (target_comp ?cs) \<and> name ?y \<in> set (target_comp ?cs) \<longrightarrow>
         comp_select_card ?cs [?x, ?y] GameState_init = Some ?x"
    by (rule comp_select_card_first_match[where cs = ?cs and gs = GameState_init and x = ?x
          and y = ?y and cards = "[]", THEN conjunct2, THEN conjunct2, THEN conjunct2])
  from ex pre show "comp_select_card ?cs [?x, ?y] GameState_init = Some ?x"
    by (rule mp)
next
  let ?cs = "\<lparr>target_comp = [''Y'', ''X''], current_comp = []\<rparr>"
  let ?cards = "[Card_init ''Z'' 1 None [] 0.8 None]"
  have none: "\<forall>c\<in>set ?cards. name c \<notin> set (target_comp ?cs)"
    by (simp add: Card_init_def)
  have eq: "comp_select_card ?cs ?cards GameState_init = None \<longleftrightarrow>
      (\<forall>c\<in>set ?cards. name c \<notin> set (target_comp ?cs))"
    by (rule comp_select_card_first_match[where cs = ?cs and gs = GameState_init and cards = ?cards,
          THEN conjunct1])
  from eq none show "comp_select_card ?cs ?cards GameState_init = None"
    by (rule iffD2)
qed


section \<open>The controller's lifecycle\<close>

lemma start_twice:
  "start_auto_picker (snd (start_auto_picker s)) = (False, snd (start_auto_picker s))"
  by (simp add: start_auto_picker_def)

text \<open>
  C2. Each lifecycle operation returns a boolean; the model has no exception branch
  because the refusing paths of the source only log and return. Called outside its
  source state an operation returns \<^verbatim>\<open>False\<close> and leaves the whole controller as it
  was: \<^verbatim>\<open>start\<close> while Running (so no thread is started), \<^verbatim>\<open>stop\<close> while Stopped,
  \<^verbatim>\<open>pause\<close> while not Running, \<^verbatim>\<open>resume\<close> while not Paused. A second \<^verbatim>\<open>start\<close> right
  after a first returns \<^verbatim>\<open>False\<close> and starts no thread, from every state, and
  \<^verbatim>\<open>pause\<close> while Stopped returns \<^verbatim>\<open>False\<close>.
\<close>

theorem lifecycle_misuse_returns_False:
  "(auto_picker_state s = RUNNING \<longrightarrow> start_auto_picker s = (False, s))
   \<and> (auto_picker_state s = STOPPED \<longrightarrow> stop_auto_picker s = (False, s))
   \<and> (auto_picker_state s \<noteq> RUNNING \<longrightarrow> pause_auto_picker s = (False, s))
   \<and> (auto_picker_state s \<noteq> PAUSED \<longrightarrow> resume_auto_picker s = (False, s))
   \<and> start_auto_picker (snd (start_auto_picker s)) = (False, snd (start_auto_picker s))
   \<and> (auto_picker_state s = STOPPED \<longrightarrow> fst (pause_auto_picker s) = False)"
proof (intro conjI)
  show "auto_picker_state s = RUNNING \<longrightarrow> start_auto_picker s = (False, s)"
    by (simp add: start_auto_picker_def)
  show "auto_picker_state s = STOPPED \<longrightarrow> stop_auto_picker s = (False, s)"
    by (simp add: stop_auto_picker_def)
  show "auto_picker_state s \<noteq> RUNNING \<longrightarrow> pause_auto_picker s = (False, s)"
    by (simp add: pause_auto_picker_def)
  show "auto_picker_state s \<noteq> PAUSED \<longrightarrow> resume_auto_picker s = (False, s)"
    by (simp add: resume_auto_picker_def)
  show "start_auto_picker (snd (start_auto_picker s)) = (False, snd (start_auto_picker s))"
    by (rule start_twice)
  show "auto_picker_state s = STOPPED \<longrightarrow> fst (pause_auto_picker s) = False"
    by (simp add: pause_auto_picker_def)
qed

theorem lifecycle_misuse_returns_False_witness:
  "auto_picker_state GameAutomator_init = STOPPED
   \<and> fst (start_auto_picker GameAutomator_init) = True
   \<and> fst (start_auto_picker (snd (start_auto_picker GameAutomator_init))) = False
   \<and> threads_started (snd (start_auto_picker (snd (start_auto_picker GameAutomator_init)))) = 1
   \<and> fst (pause_auto_picker GameAutomator_init) = False
   \<and> stop_auto_picker GameAutomator_init = (False, GameAutomator_init)
   \<and> resume_auto_picker GameAutomator_init = (False, GameAutomator_init)"
proof -
  have st: "auto_picker_state GameAutomator_init = STOPPED"
    by (simp add: GameAutomator_init_def)
  have ts: "threads_started GameAutomator_init = 0"
    by (simp add: GameAutomator_init_def)
  have first: "fst (start_auto_picker GameAutomator_init) = True"
    using st by (simp add: start_auto_picker_def)
  have n1: "threads_started (snd (start_auto_picker GameAutomator_init)) = 1"
    using st ts by (simp add: start_auto_picker_def)
  note L = lifecycle_misuse_returns_False[where s = GameAutomator_init]
  have twice: "start_auto_picker (snd (start_auto_picker GameAutomator_init))
      = (False, snd (start_auto_picker GameAutomator_init))"
    by (rule L[THEN conjunct2, THEN conjunct2, THEN conjunct2, THEN conjunct2, THEN conjunct1])
  have pause: "fst (pause_auto_picker GameAutomator_init) = False"
    by (rule mp[OF L[THEN conjunct2, THEN conjunct2, THEN conjunct2, THEN conjunct2, THEN conjunct2] st])
  have stop: "stop_auto_picker GameAutomator_init = (False, GameAutomator_init)"
    by (rule mp[OF L[THEN conjunct2, THEN conjunct1] st])
  have "auto_picker_state GameAutomator_init \<noteq> PAUSED" by (simp add: st)
  then have resume: "resume_auto_picker GameAutomator_init = (False, GameAutomator_init)"
    by (rule mp[OF L[THEN conjunct2, THEN conjunct2, THEN conjunct2, THEN conjunct1]])
  show ?thesis
    using st first n1 pause stop resume by (simp add: twice)
qed

lemma live_loops_pick_card: "live_loops (snd (pick_card ptr now c s)) = live_loops s"
  by (simp add: pick_card_def Let_def split: option.splits)

lemma live_loops_process_shop_phase:
  "live_loops (snd (process_shop_phase cv tk s)) = live_loops s"
proof -
  have "live_loops (snd (case pick_card ptr now c s1 of
            (Inl e, s2) \<Rightarrow> (Some e, s2) | (Inr picked, s2) \<Rightarrow> (None, s2))) = live_loops s1"
    for ptr now c s1
    using live_loops_pick_card[of ptr now c s1]
    by (cases "pick_card ptr now c s1") (auto split: sum.splits)
  then show ?thesis
    by (simp add: process_shop_phase_def Let_def split: sum.splits option.splits prod.splits)
qed

text \<open>
  C10. \<^verbatim>\<open>start_auto_picker\<close> returns \<^verbatim>\<open>False\<close> exactly in the state Running. Called
  while Paused it returns \<^verbatim>\<open>True\<close>, clears the stop and the pause flag, sets the state
  to Running and starts a new monitor thread; it joins no thread, every loop that
  was alive is still alive beside the new one, and since the stop flag is clear such
  a loop stays alive through its next iteration.
\<close>

theorem start_auto_picker_while_paused:
  "(fst (start_auto_picker s) = False \<longleftrightarrow> auto_picker_state s = RUNNING)
   \<and> (auto_picker_state s = PAUSED \<longrightarrow>
        fst (start_auto_picker s) = True
        \<and> \<not> stop_event (snd (start_auto_picker s))
        \<and> \<not> pause_event (snd (start_auto_picker s))
        \<and> auto_picker_state (snd (start_auto_picker s)) = RUNNING
        \<and> threads_started (snd (start_auto_picker s)) = Suc (threads_started s)
        \<and> monitor_thread (snd (start_auto_picker s)) = Some (threads_started s)
        \<and> live_loops (snd (start_auto_picker s)) = live_loops s @ [threads_started s]
        \<and> join_calls (snd (start_auto_picker s)) = join_calls s
        \<and> (\<forall>t\<in>set (live_loops s).
              t \<in> set (live_loops (monitor_loop_iteration cv tk t (snd (start_auto_picker s))))))"
proof (intro conjI impI)
  show "fst (start_auto_picker s) = False \<longleftrightarrow> auto_picker_state s = RUNNING"
    by (simp add: start_auto_picker_def)
next
  assume p: "auto_picker_state s = PAUSED"
  then have eq: "start_auto_picker s =
        (True, s\<lparr> stop_event := False, pause_event := False, auto_picker_state := RUNNING,
                  monitor_thread := Some (threads_started s),
                  live_loops := live_loops s @ [threads_started s],
                  threads_started := Suc (threads_started s) \<rparr>)"
    by (simp add: start_auto_picker_def)
  show "fst (start_auto_picker s) = True" by (simp add: eq)
  show "\<not> stop_event (snd (start_auto_picker s))" by (simp add: eq)
  show "\<not> pause_event (snd (start_auto_picker s))" by (simp add: eq)
  show "auto_picker_state (snd (start_auto_picker s)) = RUNNING" by (simp add: eq)
  show "threads_started (snd (start_auto_picker s)) = Suc (threads_started s)" by (simp add: eq)
  show "monitor_thread (snd (start_auto_picker s)) = Some (threads_started s)" by (simp add: eq)
  show "live_loops (snd (start_auto_picker s)) = live_loops s @ [threads_started s]" by (simp add: eq)
  show "join_calls (snd (start_auto_picker s)) = join_calls s" by (simp add: eq)
  show "\<forall>t\<in>set (live_loops s).
              t \<in> set (live_loops (monitor_loop_iteration cv tk t (snd (start_auto_picker s))))"
  proof
    fix t assume t: "t \<in> set (live_loops s)"
    let ?s' = "snd (start_auto_picker s)"
    have f: "\<not> stop_event ?s'" "\<not> pause_event ?s'" "t \<in> set (live_loops ?s')"
      using t by (simp_all add: eq)
    then have "monitor_loop_iteration cv tk t ?s' = snd (process_shop_phase cv tk ?s')"
      by (simp add: monitor_loop_iteration_def)
    then show "t \<in> set (live_loops (monitor_loop_iteration cv tk t ?s'))"
      using f(3) by (simp add: live_loops_process_shop_phase)
  qed
qed

theorem start_auto_picker_while_paused_witness:
  "auto_picker_state (snd (pause_auto_picker (snd (start_auto_picker GameAutomator_init)))) = PAUSED
   \<and> live_loops (snd (pause_auto_picker (snd (start_auto_picker GameAutomator_init)))) = [0]
   \<and> fst (start_auto_picker (snd (pause_auto_picker (snd (start_auto_picker GameAutomator_init))))) = True
   \<and> live_loops (snd (start_auto_picker (snd (pause_auto_picker (snd (start_auto_picker GameAutomator_init))))))
       = [0, 1]
   \<and> \<not> stop_event (snd (start_auto_picker (snd (pause_auto_picker (snd (start_auto_picker GameAutomator_init))))))"
proof -
  let ?s1 = "snd (start_auto_picker GameAutomator_init)"
  let ?s2 = "snd (pause_auto_picker ?s1)"
  have i: "auto_picker_state GameAutomator_init = STOPPED" "threads_started GameAutomator_init = 0"
    "live_loops GameAutomator_init = []"
    by (simp_all add: GameAutomator_init_def)
  have s1: "auto_picker_state ?s1 = RUNNING" "threads_started ?s1 = 1" "live_loops ?s1 = [0]"
    using i by (simp_all add: start_auto_picker_def)
  have s2: "auto_picker_state ?s2 = PAUSED" "threads_started ?s2 = 1" "live_loops ?s2 = [0]"
    using s1 by (simp_all add: pause_auto_picker_def)
  note L = start_auto_picker_while_paused[where s = ?s2, THEN conjunct2, THEN mp, OF s2(1)]
  have a: "fst (start_auto_picker ?s2) = True"
    by (rule L[THEN conjunct1])
  have b: "\<not> stop_event (snd (start_auto_picker ?s2))"
    by (rule L[THEN conjunct2, THEN conjunct1])
  have "live_loops (snd (start_auto_picker ?s2)) = live_loops ?s2 @ [threads_started ?s2]"
    by (rule L[THEN conjunct2, THEN conjunct2, THEN conjunct2, THEN conjunct2, THEN conjunct2,
          THEN conjunct2, THEN conjunct1])
  then have c: "live_loops (snd (start_auto_picker ?s2)) = [0, 1]"
    by (simp add: s2)
  from s2(1) s2(3) a c b show ?thesis by blast
qed


section \<open>Template matching\<close>

lemma np_where_ge_empty: "concat result = [] \<Longrightarrow> np_where_ge result threshold = []"
proof -
  assume "concat result = []"
  then have rows: "\<forall>row\<in>set result. row = []" by simp
  have "\<forall>p\<in>set (List.enumerate 0 result). snd p = []"
  proof
    fix p assume "p \<in> set (List.enumerate 0 result)"
    then have "(fst p, snd p) \<in> set (zip [0..<0 + length result] result)"
      by (simp add: enumerate_eq_zip)
    then have "snd p \<in> set result"
      by (rule set_zip_rightD)
    with rows show "snd p = []" by blast
  qed
  then show ?thesis
    by (auto simp: np_where_ge_def)
qed

lemma np_where_ge_mem:
  "(y, x, v) \<in> set (np_where_ge result threshold) \<longleftrightarrow>
     y < length result \<and> x < length (result ! y) \<and> v = result ! y ! x \<and> threshold \<le> v"
proof
  assume "(y, x, v) \<in> set (np_where_ge result threshold)"
  then show "y < length result \<and> x < length (result ! y) \<and> v = result ! y ! x \<and> threshold \<le> v"
    by (auto simp: np_where_ge_def in_set_enumerate_eq)
next
  assume r: "y < length result \<and> x < length (result ! y) \<and> v = result ! y ! x \<and> threshold \<le> v"
  then have 1: "(y, result ! y) \<in> set (List.enumerate 0 result)"
    by (simp add: in_set_enumerate_eq)
  from r have 2: "(x, v) \<in> set (filter (\<lambda>(x, v). v \<ge> threshold) (List.enumerate 0 (result ! y)))"
    by (simp add: in_set_enumerate_eq)
  let ?g = "\<lambda>(y, row). map (\<lambda>(x, v). (y, x, v))
                        (filter (\<lambda>(x, v). v \<ge> threshold) (List.enumerate 0 row))"
  have e: "(y, x, v) = (\<lambda>(x, v). (y, x, v)) (x, v)" by simp
  from e 2 have "(y, x, v) \<in> (\<lambda>(x, v). (y, x, v)) `
        set (filter (\<lambda>(x, v). v \<ge> threshold) (List.enumerate 0 (result ! y)))"
    by (rule image_eqI)
  then have 3: "(y, x, v) \<in> set (?g (y, result ! y))" by simp
  have "set (np_where_ge result threshold) = (\<Union>p\<in>set (List.enumerate 0 result). set (?g p))"
    by (simp add: np_where_ge_def)
  with 1 3 show "(y, x, v) \<in> set (np_where_ge result threshold)"
    by blast
qed

text \<open>
  For a loaded template whose correlation succeeds, the matches are the locations
  whose score reaches \<^const>\<open>threshold_or\<close> of the threshold given and the default.
\<close>

lemma match_template_locations:
  assumes "map_of (templates tm) n = Some template" "matchTemplate cv source template = Inr result"
    "shape template = h # w # ds"
  shows "match_template cv tm source n threshold =
     map (make_match n h w) (np_where_ge result (threshold_or threshold (default_threshold tm)))"
  using assms by (simp add: match_template_def match_template_try_def)

lemma threshold_or_cases:
  "threshold_or None d = d" "t \<noteq> 0 \<Longrightarrow> threshold_or (Some t) d = t" "threshold_or (Some 0) d = d"
  by (simp_all add: threshold_or_def)

text \<open>
  C5, at the threshold 0.0. The template \<open>t\<close> is loaded, the default threshold is 0.8
  and OpenCV returns the one-entry surface with score 0.5. Called with the threshold
  0.0 the matcher compares with the default 0.8 and returns nothing, although the
  score reaches the threshold that was given; called with 0.25 it returns the location.
\<close>

theorem match_template_threshold_zero:
  "match_template
     \<lparr>matchTemplate = (\<lambda>source template. Inr [[0.5]]), hsv_inRange_count = (\<lambda>img lower upper. Inr 0)\<rparr>
     \<lparr>templates = [(''t'', \<lparr>shape = [1, 1, 3], buf = []\<rparr>)], templates_info = [], default_threshold = 0.8\<rparr>
     \<lparr>shape = [1, 1, 3], buf = []\<rparr> ''t'' (Some 0) = []
   \<and> threshold_or (Some 0) 0.8 = 0.8
   \<and> (0.5::real) \<ge> 0
   \<and> match_template
     \<lparr>matchTemplate = (\<lambda>source template. Inr [[0.5]]), hsv_inRange_count = (\<lambda>img lower upper. Inr 0)\<rparr>
     \<lparr>templates = [(''t'', \<lparr>shape = [1, 1, 3], buf = []\<rparr>)], templates_info = [], default_threshold = 0.8\<rparr>
     \<lparr>shape = [1, 1, 3], buf = []\<rparr> ''t'' (Some 0.25)
     = [\<lparr>m_name = ''t'', top_left = (0, 0), bottom_right = (1, 1), center = (0, 0),
         m_confidence = 0.5, m_width = 1, m_height = 1\<rparr>]"
  by (simp add: match_template_def match_template_try_def threshold_or_def np_where_ge_def
        make_match_def enumerate_eq_zip)

text \<open>
  C6. For a source of size 0, in which OpenCV finds nothing, \<^verbatim>\<open>match_template\<close>
  returns the empty list for every template name; and whenever the \<^verbatim>\<open>try\<close> block
  raises, for whatever source, the call returns the empty list: no exception leaves
  the function.
\<close>

theorem match_template_zero_area_source:
  "(cv_finds_nothing_in_empty cv \<and> ndarray_size source = 0 \<longrightarrow>
      match_template cv tm source template_name threshold = [])
   \<and> (map_of (templates tm) template_name = Some template \<and>
       match_template_try cv source template template_name
         (threshold_or threshold (default_threshold tm)) = Inl e \<longrightarrow>
      match_template cv tm source template_name threshold = [])"
proof (intro conjI impI)
  assume "cv_finds_nothing_in_empty cv \<and> ndarray_size source = 0"
  then have cv: "\<And>template. (case matchTemplate cv source template of
           Inl e \<Rightarrow> True | Inr result \<Rightarrow> concat result = [])"
    by (simp add: cv_finds_nothing_in_empty_def)
  show "match_template cv tm source template_name threshold = []"
  proof (cases "map_of (templates tm) template_name")
    case None
    then show ?thesis by (simp add: match_template_def)
  next
    case (Some template)
    show ?thesis
    proof (cases "matchTemplate cv source template")
      case (Inl e)
      with Some show ?thesis by (simp add: match_template_def match_template_try_def)
    next
      case (Inr result)
      with cv[of template] have "concat result = []" by simp
      then have "np_where_ge result (threshold_or threshold (default_threshold tm)) = []"
        by (rule np_where_ge_empty)
      with Some Inr show ?thesis
        by (simp add: match_template_def match_template_try_def split: list.splits)
    qed
  qed
next
  assume "map_of (templates tm) template_name = Some template \<and>
       match_template_try cv source template template_name
         (threshold_or threshold (default_threshold tm)) = Inl e"
  then show "match_template cv tm source template_name threshold = []"
    by (simp add: match_template_def)
qed

theorem match_template_zero_area_source_witness:
  "cv_finds_nothing_in_empty
     \<lparr>matchTemplate = (\<lambda>source template. if ndarray_size source = 0 then Inl cv2_error else Inr [[0.9]]),
      hsv_inRange_count = (\<lambda>img lower upper. Inr 0)\<rparr>
   \<and> ndarray_size np_array_empty = 0
   \<and> match_template
       \<lparr>matchTemplate = (\<lambda>source template. if ndarray_size source = 0 then Inl cv2_error else Inr [[0.9]]),
        hsv_inRange_count = (\<lambda>img lower upper. Inr 0)\<rparr>
       \<lparr>templates = [(''t'', \<lparr>shape = [1, 1, 3], buf = []\<rparr>)], templates_info = [], default_threshold = 0.8\<rparr>
       np_array_empty ''t'' None = []
   \<and> match_template
       \<lparr>matchTemplate = (\<lambda>source template. if ndarray_size source = 0 then Inl cv2_error else Inr [[0.9]]),
        hsv_inRange_count = (\<lambda>img lower upper. Inr 0)\<rparr>
       \<lparr>templates = [(''t'', \<lparr>shape = [1, 1, 3], buf = []\<rparr>)], templates_info = [], default_threshold = 0.8\<rparr>
       \<lparr>shape = [0, 5, 3], buf = []\<rparr> ''t'' (Some 0.5) = []"
proof -
  let ?cv = "\<lparr>matchTemplate = (\<lambda>source template. if ndarray_size source = 0 then Inl cv2_error else Inr [[0.9]]),
      hsv_inRange_count = (\<lambda>img lower upper. Inr 0)\<rparr>"
  let ?tm = "\<lparr>templates = [(''t'', \<lparr>shape = [1, 1, 3], buf = []\<rparr>)], templates_info = [], default_threshold = 0.8\<rparr>"
  have a: "cv_finds_nothing_in_empty ?cv"
    by (simp add: cv_finds_nothing_in_empty_def)
  have b: "ndarray_size np_array_empty = 0"
    by (simp add: ndarray_size_def np_array_empty_def)
  have c: "ndarray_size \<lparr>shape = [0, 5, 3], buf = []\<rparr> = 0"
    by (simp add: ndarray_size_def)
  have 1: "match_template ?cv ?tm np_array_empty ''t'' None = []"
    by (rule match_template_zero_area_source[THEN conjunct1, THEN mp]) (simp only: a b simp_thms)
  have 2: "match_template ?cv ?tm \<lparr>shape = [0, 5, 3], buf = []\<rparr> ''t'' (Some 0.5) = []"
    by (rule match_template_zero_area_source[THEN conjunct1, THEN mp]) (simp only: a c simp_thms)
  from a b 1 2 show ?thesis by blast
qed


section \<open>Recognition passes\<close>

lemma detect_shop_phase_frame:
  assumes "detect_shop_phase cv scr cr = Inr (b, cr1)"
  shows "template_matcher cr1 = template_matcher cr \<and> shop_regions cr1 = shop_regions cr \<and>
         available_cards (game_state cr1) = available_cards (game_state cr) \<and>
         shop_slots (game_state cr1) = shop_slots (game_state cr)"
  using assms
  by (auto simp: detect_shop_phase_def Let_def set_shop_phase_def set_lobby_phase_def
        update_phase_def split: if_splits sum.splits list.splits)

lemma recognize_single_card_Some:
  "recognize_single_card cv tm img i = Some c \<Longrightarrow> \<not> is_selected c \<and> shop_index c = Some i"
  by (auto simp: recognize_single_card_def Let_def Card_init_def split: option.splits)

lemma recognize_slots_unselected:
  "c \<in> set (fst (recognize_slots cv scr tm k rs)) \<Longrightarrow> \<not> is_selected c"
proof (induction rs arbitrary: k)
  case Nil
  then show ?case by simp
next
  case (Cons r rs)
  then show ?case
    by (auto simp: Let_def set_position_def split: if_splits option.splits
          dest: recognize_single_card_Some)
qed

lemma recognize_slots_indices:
  "map shop_index (fst (recognize_slots cv scr tm k rs)) =
     map Some (filter (\<lambda>i. slot_recognized cv scr tm (rs ! (i - k)) i) [k..<k + length rs])"
proof (induction rs arbitrary: k)
  case Nil
  then show ?case by simp
next
  case (Cons r rs)
  let ?P = "\<lambda>i. slot_recognized cv scr tm ((r # rs) ! (i - k)) i"
  let ?Q = "\<lambda>i. slot_recognized cv scr tm (rs ! (i - Suc k)) i"
  let ?later = "fst (recognize_slots cv scr tm (Suc k) rs)"
  have up: "[k..<k + length (r # rs)] = k # [Suc k..<Suc k + length rs]"
    using upt_conv_Cons[of k "k + Suc (length rs)"] by simp
  have tl: "filter ?P [Suc k..<Suc k + length rs] = filter ?Q [Suc k..<Suc k + length rs]"
  proof (rule filter_cong[OF refl])
    fix i assume "i \<in> set [Suc k..<Suc k + length rs]"
    then have "i - k = Suc (i - Suc k)" by auto
    then show "?P i = ?Q i" by simp
  qed
  have hd: "?P k = slot_recognized cv scr tm r k" by simp
  have rhs: "filter ?P [k..<k + length (r # rs)] =
      (if slot_recognized cv scr tm r k then [k] else []) @ filter ?Q [Suc k..<Suc k + length rs]"
    unfolding up filter.simps hd tl by simp
  have lhs: "map shop_index (fst (recognize_slots cv scr tm k (r # rs))) =
      (if slot_recognized cv scr tm r k then [Some k] else []) @ map shop_index ?later"
  proof (cases "slot_recognized cv scr tm r k")
    case True
    then obtain c where c: "recognize_single_card cv tm
        (capture_region scr k (r_left r) (r_top r) (r_width r) (r_height r)) k = Some c"
      and ne: "ndarray_size (capture_region scr k (r_left r) (r_top r) (r_width r) (r_height r)) \<noteq> 0"
      by (auto simp: slot_recognized_def Let_def)
    from recognize_single_card_Some[OF c] have "shop_index c = Some k" by simp
    with True c ne show ?thesis
      by (simp add: Let_def set_position_def)
  next
    case False
    then show ?thesis
      by (auto simp: Let_def slot_recognized_def split: option.splits)
  qed
  show ?case
    unfolding lhs rhs Cons.IH[of "Suc k"] by (simp del: upt_Suc)
qed

text \<open>
  C7, as the code has it. \<^verbatim>\<open>refresh_and_recognize\<close> runs the slot loop only when the
  phase after detection is Shopping and the screenshot of the pass is not empty.
  Such a pass stores the list it returns as \<^verbatim>\<open>available_cards\<close>; the list is built from
  the screen, the templates and the regions alone, none of its cards is selected, and
  the slot indices of its cards are, in order, the slots with a confident match. When
  the phase is not Shopping the call returns the empty list and does nothing beyond
  phase detection; then, as when the screenshot is empty, \<^verbatim>\<open>available_cards\<close> stays as
  it was.
\<close>

theorem refresh_and_recognize_pass:
  "refresh_and_recognize cv scr cr = Inr (cards, cr') \<longrightarrow>
     (phase (game_state cr') \<noteq> SHOPPING \<longrightarrow>
        cards = [] \<and> (\<exists>b. detect_shop_phase cv scr cr = Inr (b, cr')) \<and>
        available_cards (game_state cr') = available_cards (game_state cr))
   \<and> (phase (game_state cr') = SHOPPING \<and> ndarray_size (full_screen_recognize scr) = 0 \<longrightarrow>
        cards = [] \<and> available_cards (game_state cr') = available_cards (game_state cr))
   \<and> (phase (game_state cr') = SHOPPING \<and> ndarray_size (full_screen_recognize scr) \<noteq> 0 \<longrightarrow>
        available_cards (game_state cr') = cards
        \<and> cards = fst (recognize_slots cv scr (template_matcher cr) 0 (shop_regions cr))
        \<and> (\<forall>c\<in>set cards. \<not> is_selected c)
        \<and> map shop_index cards =
            map Some (filter (slot_has_match cv scr cr) [0..<length (shop_regions cr)]))"
proof (rule impI)
  assume r: "refresh_and_recognize cv scr cr = Inr (cards, cr')"
  then obtain b cr1 where d: "detect_shop_phase cv scr cr = Inr (b, cr1)"
    by (auto simp: refresh_and_recognize_def split: sum.splits)
  note fr = detect_shop_phase_frame[OF d]
  from r d have res: "(cards, cr') =
      (if phase (game_state cr1) = SHOPPING then recognize_cards cv scr cr1 else ([], cr1))"
    by (auto simp: refresh_and_recognize_def split: if_splits)
  have ph: "phase (game_state cr') = phase (game_state cr1)"
    using res by (auto simp: recognize_cards_def Let_def split: if_splits)
  have A: "cards = [] \<and> (\<exists>b. detect_shop_phase cv scr cr = Inr (b, cr')) \<and>
        available_cards (game_state cr') = available_cards (game_state cr)"
    if "phase (game_state cr') \<noteq> SHOPPING"
  proof -
    from that ph res have "cards = []" "cr' = cr1" by (auto split: if_splits)
    with d fr show ?thesis by auto
  qed
  have B: "cards = [] \<and> available_cards (game_state cr') = available_cards (game_state cr)"
    if "phase (game_state cr') = SHOPPING \<and> ndarray_size (full_screen_recognize scr) = 0"
  proof -
    from that ph res have "cards = []" "cr' = cr1" by (auto simp: recognize_cards_def)
    with fr show ?thesis by simp
  qed
  have C: "available_cards (game_state cr') = cards
        \<and> cards = fst (recognize_slots cv scr (template_matcher cr) 0 (shop_regions cr))
        \<and> (\<forall>c\<in>set cards. \<not> is_selected c)
        \<and> map shop_index cards =
            map Some (filter (slot_has_match cv scr cr) [0..<length (shop_regions cr)])"
    if "phase (game_state cr') = SHOPPING \<and> ndarray_size (full_screen_recognize scr) \<noteq> 0"
  proof -
    from that ph res have c: "cards = fst (recognize_slots cv scr (template_matcher cr1) 0 (shop_regions cr1))"
      and av: "available_cards (game_state cr') = cards"
      by (auto simp: recognize_cards_def Let_def)
    from c fr have c': "cards = fst (recognize_slots cv scr (template_matcher cr) 0 (shop_regions cr))"
      by simp
    have u: "\<forall>c\<in>set cards. \<not> is_selected c"
      unfolding c' by (blast dest: recognize_slots_unselected)
    have i: "map shop_index cards =
            map Some (filter (slot_has_match cv scr cr) [0..<length (shop_regions cr)])"
    proof -
      have "slot_has_match cv scr cr =
          (\<lambda>i. slot_recognized cv scr (template_matcher cr) (shop_regions cr ! i) i)"
        by (rule ext) (simp add: slot_has_match_def)
      then show ?thesis
        unfolding c' using recognize_slots_indices[of cv scr "template_matcher cr" 0 "shop_regions cr"]
        by simp
    qed
    from av c' u i show ?thesis by blast
  qed
  from A B C show "(phase (game_state cr') \<noteq> SHOPPING \<longrightarrow>
        cards = [] \<and> (\<exists>b. detect_shop_phase cv scr cr = Inr (b, cr')) \<and>
        available_cards (game_state cr') = available_cards (game_state cr))
   \<and> (phase (game_state cr') = SHOPPING \<and> ndarray_size (full_screen_recognize scr) = 0 \<longrightarrow>
        cards = [] \<and> available_cards (game_state cr') = available_cards (game_state cr))
   \<and> (phase (game_state cr') = SHOPPING \<and> ndarray_size (full_screen_recognize scr) \<noteq> 0 \<longrightarrow>
        available_cards (game_state cr') = cards
        \<and> cards = fst (recognize_slots cv scr (template_matcher cr) 0 (shop_regions cr))
        \<and> (\<forall>c\<in>set cards. \<not> is_selected c)
        \<and> map shop_index cards =
            map Some (filter (slot_has_match cv scr cr) [0..<length (shop_regions cr)]))"
    by blast
qed

lemmas eval_recognizer =
  refresh_and_recognize_def detect_shop_phase_def recognize_cards_def recognize_single_card_def
  match_all_templates_def match_template_def match_template_try_def np_where_ge_def make_match_def
  estimate_cost_def cost_ranges_def threshold_or_def set_shop_phase_def set_lobby_phase_def
  update_phase_def Card_init_def set_position_def ndarray_size_def np_array_empty_def
  enumerate_eq_zip from_cost_def cost_map_def select_def GameState_init_def Let_def

text \<open>
  C7 as stated fails on a cycle that skips the slot loop. The game state holds a
  selected card from an earlier cycle. With a failed capture during the shop phase
  \<^verbatim>\<open>recognize_cards\<close> is called, returns the empty list and leaves the state as it
  was; with a lobby screen the call returns the empty list and changes the phase
  only. Either way the selected card of the earlier cycle is still in
  \<^verbatim>\<open>available_cards\<close>.
\<close>

theorem stale_cards_survive_skipped_cycle:
  "phase (game_state demo_recognizer) = SHOPPING
   \<and> available_cards (game_state demo_recognizer) = [stale_card]
   \<and> is_selected stale_card
   \<and> refresh_and_recognize demo_cv failed_screen demo_recognizer = Inr ([], demo_recognizer)
   \<and> refresh_and_recognize demo_cv lobby_screen demo_recognizer
       = Inr ([], demo_recognizer\<lparr>game_state := (game_state demo_recognizer)
                 \<lparr>phase := LOBBY, is_active := False, last_update_time := Some 10\<rparr>\<rparr>)
   \<and> available_cards (game_state (demo_recognizer\<lparr>game_state := (game_state demo_recognizer)
                 \<lparr>phase := LOBBY, is_active := False, last_update_time := Some 10\<rparr>\<rparr>)) = [stale_card]"
proof (intro conjI)
  show "phase (game_state demo_recognizer) = SHOPPING"
    by (simp add: demo_recognizer_def)
  show "available_cards (game_state demo_recognizer) = [stale_card]"
    by (simp add: demo_recognizer_def)
  show "is_selected stale_card"
    by (simp add: stale_card_def select_def)
  show "refresh_and_recognize demo_cv failed_screen demo_recognizer = Inr ([], demo_recognizer)"
    by (simp add: eval_recognizer demo_cv_def failed_screen_def demo_recognizer_def)
  show "refresh_and_recognize demo_cv lobby_screen demo_recognizer
       = Inr ([], demo_recognizer\<lparr>game_state := (game_state demo_recognizer)
                 \<lparr>phase := LOBBY, is_active := False, last_update_time := Some 10\<rparr>\<rparr>)"
    by (simp add: eval_recognizer demo_cv_def lobby_screen_def demo_recognizer_def)
  show "available_cards (game_state (demo_recognizer\<lparr>game_state := (game_state demo_recognizer)
                 \<lparr>phase := LOBBY, is_active := False, last_update_time := Some 10\<rparr>\<rparr>)) = [stale_card]"
    by (simp add: demo_recognizer_def)
qed

lemma shop_pass_eval:
  "refresh_and_recognize demo_cv shop_screen demo_recognizer
     = Inr ([fresh_card],
            demo_recognizer\<lparr>game_state := (game_state demo_recognizer)
              \<lparr>shop_slots := [\<lparr>slot_index = 1, slot_position = (400, 500), has_card = True\<rparr>],
               available_cards := [fresh_card]\<rparr>\<rparr>)"
  by (simp add: eval_recognizer demo_cv_def shop_screen_def demo_recognizer_def fresh_card_def)

theorem refresh_and_recognize_pass_witness:
  "refresh_and_recognize demo_cv shop_screen demo_recognizer
     = Inr ([fresh_card],
            demo_recognizer\<lparr>game_state := (game_state demo_recognizer)
              \<lparr>shop_slots := [\<lparr>slot_index = 1, slot_position = (400, 500), has_card = True\<rparr>],
               available_cards := [fresh_card]\<rparr>\<rparr>)
   \<and> ndarray_size (full_screen_recognize shop_screen) \<noteq> 0
   \<and> available_cards (game_state demo_recognizer) = [stale_card]
   \<and> is_selected stale_card
   \<and> available_cards (game_state (demo_recognizer\<lparr>game_state := (game_state demo_recognizer)
              \<lparr>shop_slots := [\<lparr>slot_index = 1, slot_position = (400, 500), has_card = True\<rparr>],
               available_cards := [fresh_card]\<rparr>\<rparr>)) = [fresh_card]
   \<and> \<not> is_selected fresh_card
   \<and> map shop_index [fresh_card] = [Some 1]
   \<and> filter (slot_has_match demo_cv shop_screen demo_recognizer) [0..<2] = [1]"
proof -
  let ?cr' = "demo_recognizer\<lparr>game_state := (game_state demo_recognizer)
              \<lparr>shop_slots := [\<lparr>slot_index = 1, slot_position = (400, 500), has_card = True\<rparr>],
               available_cards := [fresh_card]\<rparr>\<rparr>"
  have ne: "ndarray_size (full_screen_recognize shop_screen) \<noteq> 0"
    by (simp add: shop_screen_def ndarray_size_def)
  have ph: "phase (game_state ?cr') = SHOPPING"
    by (simp add: demo_recognizer_def)
  have len: "length (shop_regions demo_recognizer) = 2"
    by (simp add: demo_recognizer_def)
  note L = refresh_and_recognize_pass[where cv = demo_cv and scr = shop_screen
      and cr = demo_recognizer and cards = "[fresh_card]" and cr' = ?cr', THEN mp, OF shop_pass_eval,
      THEN conjunct2, THEN conjunct2, THEN mp, OF conjI[OF ph ne]]
  have av: "available_cards (game_state ?cr') = [fresh_card]"
    by (rule L[THEN conjunct1])
  have "\<forall>c\<in>set [fresh_card]. \<not> is_selected c"
    by (rule L[THEN conjunct2, THEN conjunct2, THEN conjunct1])
  then have un: "\<not> is_selected fresh_card" by simp
  have ix: "map shop_index [fresh_card] =
      map Some (filter (slot_has_match demo_cv shop_screen demo_recognizer) [0..<length (shop_regions demo_recognizer)])"
    by (rule L[THEN conjunct2, THEN conjunct2, THEN conjunct2])
  have si: "map shop_index [fresh_card] = [Some 1]"
    by (simp add: fresh_card_def)
  from ix si have "map Some (filter (slot_has_match demo_cv shop_screen demo_recognizer) [0..<2]) = map Some [1]"
    by (simp only: len list.map)
  then have fl: "filter (slot_has_match demo_cv shop_screen demo_recognizer) [0..<2] = [1]"
    by (simp only: inj_map_eq_map[OF inj_Some])
  have old: "available_cards (game_state demo_recognizer) = [stale_card]"
    by (simp add: demo_recognizer_def)
  have sel: "is_selected stale_card"
    by (simp add: stale_card_def select_def)
  from shop_pass_eval ne old sel av un si fl show ?thesis by blast
qed


section \<open>Cooldown\<close>





















end
